theory Spec2Isabelle
  imports Complex_Main "HOL-Library.Sublist" "HOL-Library.Log_Nat" "HOL-Library.Word"
begin

section \<open>Go strings\<close>

text \<open>
  A Go string is a sequence of bytes; \<^typ>\<open>string\<close> (a list of 8-bit characters) is
  that sequence.  The functions of the packages \<^verbatim>\<open>unicode/utf8\<close>, \<^verbatim>\<open>unicode\<close> and
  \<^verbatim>\<open>strings\<close> that the program calls are written out below on bytes, with the UTF-8
  decoding they perform.
\<close>

definition byte :: "char \<Rightarrow> nat" where
  "byte c = of_char c"

definition RuneError :: nat where
  "RuneError = 0xFFFD"

text \<open>
  \<^verbatim>\<open>utf8.DecodeRuneInString\<close>: the first rune of the string and its width in bytes; an
  invalid or truncated encoding is \<^const>\<open>RuneError\<close> of width 1, the empty string
  \<^const>\<open>RuneError\<close> of width 0.
\<close>

definition DecodeRuneInString :: "string \<Rightarrow> nat \<times> nat" where
  "DecodeRuneInString s =
     (case s of
        [] \<Rightarrow> (RuneError, 0)
      | c0 # _ \<Rightarrow>
          let s0 = byte c0 in
          if s0 < 0x80 then (s0, 1)
          else if s0 < 0xC2 \<or> 0xF4 < s0 then (RuneError, 1)
          else
            let sz = (if s0 < 0xE0 then 2 else if s0 < 0xF0 then 3 else 4 :: nat);
                lo = (if s0 = 0xE0 then 0xA0 else if s0 = 0xF0 then 0x90 else 0x80 :: nat);
                hi = (if s0 = 0xED then 0x9F else if s0 = 0xF4 then 0x8F else 0xBF :: nat)
            in
              if length s < sz then (RuneError, 1)
              else
                let s1 = byte (s ! 1) in
                if s1 < lo \<or> hi < s1 then (RuneError, 1)
                else if sz \<le> 2 then ((s0 mod 32) * 64 + s1 mod 64, 2)
                else
                  let s2 = byte (s ! 2) in
                  if s2 < 0x80 \<or> 0xBF < s2 then (RuneError, 1)
                  else if sz \<le> 3 then ((s0 mod 16) * 4096 + (s1 mod 64) * 64 + s2 mod 64, 3)
                  else
                    let s3 = byte (s ! 3) in
                    if s3 < 0x80 \<or> 0xBF < s3 then (RuneError, 1)
                    else ((s0 mod 8) * 262144 + (s1 mod 64) * 4096 + (s2 mod 64) * 64
                            + s3 mod 64, 4))"

text \<open>
  The runes of a string with the bytes of each, as \<^verbatim>\<open>for _, r := range s\<close> visits them.
\<close>

function decodeRunes :: "string \<Rightarrow> (nat \<times> string) list" where
  "decodeRunes s =
     (if s = [] then []
      else (fst (DecodeRuneInString s), take (snd (DecodeRuneInString s)) s)
             # decodeRunes (drop (snd (DecodeRuneInString s)) s))"
  by pat_completeness auto
termination
proof (relation "measure length")
  show "wf (measure length)" by simp
next
  fix s :: string
  assume "s \<noteq> []"
  then have "1 \<le> snd (DecodeRuneInString s)"
    by (cases s) (auto simp: DecodeRuneInString_def Let_def)
  with \<open>s \<noteq> []\<close> show "(drop (snd (DecodeRuneInString s)) s, s) \<in> measure length"
    by (cases s) auto
qed

declare decodeRunes.simps [simp del]

text \<open>\<^verbatim>\<open>utf8.RuneCountInString\<close>: the number of runes, each invalid byte counting as one.\<close>

definition RuneCountInString :: "string \<Rightarrow> nat" where
  "RuneCountInString s = length (decodeRunes s)"

text \<open>
  \<^verbatim>\<open>unicode.IsSpace\<close>: the Latin-1 spaces \<^verbatim>\<open>\t \n \v \f \r\<close>, space, U+0085, U+00A0,
  and the code points of category Z with property Pattern\_White\_Space beyond Latin-1.
\<close>

definition IsSpace :: "nat \<Rightarrow> bool" where
  "IsSpace r \<longleftrightarrow>
     (9 \<le> r \<and> r \<le> 13) \<or> r = 0x20 \<or> r = 0x85 \<or> r = 0xA0 \<or> r = 0x1680
     \<or> (0x2000 \<le> r \<and> r \<le> 0x200A) \<or> r = 0x2028 \<or> r = 0x2029 \<or> r = 0x202F
     \<or> r = 0x205F \<or> r = 0x3000"

text \<open>The table \<^verbatim>\<open>asciiSpace\<close> of package \<^verbatim>\<open>strings\<close>.\<close>

definition asciiSpace :: "char \<Rightarrow> bool" where
  "asciiSpace c \<longleftrightarrow> (9 \<le> byte c \<and> byte c \<le> 13) \<or> byte c = 0x20"

text \<open>
  The maximal runs of elements that are not separators; \<open>cur\<close> is the run being read.
\<close>

fun fieldsBy :: "('a \<Rightarrow> bool) \<Rightarrow> 'a list \<Rightarrow> 'a list \<Rightarrow> 'a list list" where
  "fieldsBy sp cur [] = (if cur = [] then [] else [cur])"
| "fieldsBy sp cur (x # xs) =
     (if sp x then (if cur = [] then [] else [cur]) @ fieldsBy sp [] xs
      else fieldsBy sp (cur @ [x]) xs)"

text \<open>\<^verbatim>\<open>strings.FieldsFunc(s, f)\<close>: \<open>s\<close> split at each run of runes satisfying \<open>f\<close>.\<close>

definition FieldsFunc :: "(nat \<Rightarrow> bool) \<Rightarrow> string \<Rightarrow> string list" where
  "FieldsFunc f s = map (\<lambda>rs. concat (map snd rs)) (fieldsBy (\<lambda>r. f (fst r)) [] (decodeRunes s))"

text \<open>
  \<^verbatim>\<open>strings.Fields\<close>: a string of ASCII bytes only is split at the bytes of
  \<^const>\<open>asciiSpace\<close>; any other string goes through \<^const>\<open>FieldsFunc\<close> with
  \<^const>\<open>IsSpace\<close>.
\<close>

definition Fields :: "string \<Rightarrow> string list" where
  "Fields s =
     (if list_all (\<lambda>c. byte c < 0x80) s then fieldsBy asciiSpace [] s
      else FieldsFunc IsSpace s)"

text \<open>
  \<^verbatim>\<open>strings.TrimSpace\<close>: the string without its leading and trailing white space, as
  Unicode defines it.
\<close>

definition TrimSpace :: "string \<Rightarrow> string" where
  "TrimSpace s =
     concat (map snd
       (rev (dropWhile (\<lambda>r. IsSpace (fst r))
         (rev (dropWhile (\<lambda>r. IsSpace (fst r)) (decodeRunes s))))))"

text \<open>
  \<^verbatim>\<open>strings.Split(s, sep)\<close> for a separator of one byte, as both calls of the program
  have it: the pieces between the occurrences of the separator, one more than there
  are occurrences; \<open>cur\<close> is the piece being read.
\<close>

fun splitFrom :: "string \<Rightarrow> string \<Rightarrow> char \<Rightarrow> string list" where
  "splitFrom cur [] sep = [cur]"
| "splitFrom cur (c # cs) sep =
     (if c = sep then cur # splitFrom [] cs sep else splitFrom (cur @ [c]) cs sep)"

definition Split :: "string \<Rightarrow> char \<Rightarrow> string list" where
  "Split s sep = splitFrom [] s sep"

text \<open>\<^verbatim>\<open>strings.Contains(s, substr)\<close>.\<close>

fun Contains :: "string \<Rightarrow> string \<Rightarrow> bool" where
  "Contains [] substr = (substr = [])"
| "Contains (c # cs) substr = (prefix substr (c # cs) \<or> Contains cs substr)"

text \<open>\<^verbatim>\<open>strings.TrimPrefix(s, prefix)\<close>.\<close>

definition TrimPrefix :: "string \<Rightarrow> string \<Rightarrow> string" where
  "TrimPrefix s p = (if prefix p s then drop (length p) s else s)"

text \<open>\<^verbatim>\<open>strings.Repeat(s, count)\<close> panics on a negative count.\<close>

datatype panic = NegativeRepeatCount | IndexOutOfRange nat nat

definition Repeat :: "string \<Rightarrow> int \<Rightarrow> panic + string" where
  "Repeat s count =
     (if count < 0 then Inl NegativeRepeatCount else Inr (concat (replicate (nat count) s)))"

section \<open>Toolchain version detection (system/SystemInfo.go)\<close>

record Language =
  Icon :: string
  Name :: string
  Version :: string

definition languageDetector :: "string \<Rightarrow> string \<Rightarrow> string \<Rightarrow> Language" where
  "languageDetector name icon version = \<lparr>Icon = icon, Name = name, Version = version\<rparr>"

text \<open>The loop over the lines of the \<^verbatim>\<open>java\<close> output.\<close>

fun javaLines :: "string list \<Rightarrow> string option" where
  "javaLines [] = None"
| "javaLines (line # lines) =
     (if Contains line ''version'' then
        (let parts = Split line (CHR 0x22) in
         if length parts > 1 then Some (parts ! 1) else javaLines lines)
      else javaLines lines)"

definition processVersionString :: "string \<Rightarrow> string \<Rightarrow> string" where
  "processVersionString command version =
     (if command = ''python'' \<or> command = ''ruby'' \<or> command = ''go'' \<or> command = ''rustc'' then
        (let parts = Fields version in
         if length parts > 1 then parts ! 1 else version)
      else if command = ''node'' then TrimPrefix version ''v''
      else if command = ''java'' then
        (case javaLines (Split version (CHR 0x0A)) of
           Some v \<Rightarrow> v
         | None \<Rightarrow> version)
      else if command = ''php'' then
        (let parts = Fields version in
         if length parts > 0 then parts ! 0 else version)
      else version)"

text \<open>
  What the program sees of the machine it probes: \<^verbatim>\<open>runtime.GOOS\<close>, and for a command
  and its arguments the combined output of the child process with the error of
  \<^verbatim>\<open>CombinedOutput\<close> (binary not found, non-zero exit), if any.
\<close>

datatype error = Error (message: string)

datatype Cmd = Command string "string list"

record exec_env =
  GOOS :: string
  CombinedOutput :: "Cmd \<Rightarrow> string \<times> error option"

definition runCommand :: "'a exec_env_scheme \<Rightarrow> string \<Rightarrow> string list \<Rightarrow> string" where
  "runCommand env command args =
     (let fullCmd = command # args;
          cmd = (if GOOS env = ''windows'' then Command ''cmd'' (''/c'' # fullCmd)
                 else Command command args)
      in case CombinedOutput env cmd of
           (output, Some err) \<Rightarrow> []
         | (output, None) \<Rightarrow> processVersionString command (TrimSpace output))"

definition getPythonVersion :: "'a exec_env_scheme \<Rightarrow> string" where
  "getPythonVersion env = runCommand env ''python'' [''--version'']"

definition getGoVersion :: "'a exec_env_scheme \<Rightarrow> string" where
  "getGoVersion env = runCommand env ''go'' [''version'']"

definition getNodeVersion :: "'a exec_env_scheme \<Rightarrow> string" where
  "getNodeVersion env = runCommand env ''node'' [''--version'']"

definition getJavaVersion :: "'a exec_env_scheme \<Rightarrow> string" where
  "getJavaVersion env = runCommand env ''java'' [''-version'']"

definition getRubyVersion :: "'a exec_env_scheme \<Rightarrow> string" where
  "getRubyVersion env = runCommand env ''ruby'' [''--version'']"

definition getRustVersion :: "'a exec_env_scheme \<Rightarrow> string" where
  "getRustVersion env = runCommand env ''rustc'' [''--version'']"

definition getPHPVersion :: "'a exec_env_scheme \<Rightarrow> string" where
  "getPHPVersion env = runCommand env ''php'' [''--version'']"

text \<open>The slice \<^verbatim>\<open>languages\<close>; the icons are the UTF-8 bytes of the source's emoji.\<close>

definition languages :: "'a exec_env_scheme \<Rightarrow> Language list" where
  "languages env =
     [languageDetector ''Python'' [CHR 0xF0, CHR 0x9F, CHR 0x90, CHR 0x8D] (getPythonVersion env),
      languageDetector ''Go'' [CHR 0xF0, CHR 0x9F, CHR 0x9F, CHR 0xA2] (getGoVersion env),
      languageDetector ''Node.js'' [CHR 0xF0, CHR 0x9F, CHR 0x9F, CHR 0xA8] (getNodeVersion env),
      languageDetector ''Java'' [CHR 0xE2, CHR 0x98, CHR 0x95] (getJavaVersion env),
      languageDetector ''Ruby'' [CHR 0xF0, CHR 0x9F, CHR 0x92, CHR 0x8E] (getRubyVersion env),
      languageDetector ''Rust'' [CHR 0xF0, CHR 0x9F, CHR 0xA6, CHR 0x80] (getRustVersion env),
      languageDetector ''PHP'' [CHR 0xF0, CHR 0x9F, CHR 0x90, CHR 0x98] (getPHPVersion env)]"

text \<open>
  The loop \<^verbatim>\<open>for _, lang := range languages\<close>, appending to \<^verbatim>\<open>installedLanguages\<close>.
\<close>

fun appendInstalled :: "Language list \<Rightarrow> Language list \<Rightarrow> Language list" where
  "appendInstalled installedLanguages [] = installedLanguages"
| "appendInstalled installedLanguages (lang # rest) =
     (if Version lang \<noteq> [] then appendInstalled (installedLanguages @ [lang]) rest
      else appendInstalled installedLanguages rest)"

definition GetProgrammingLanguages :: "'a exec_env_scheme \<Rightarrow> Language list" where
  "GetProgrammingLanguages env = appendInstalled [] (languages env)"


text \<open>The probe as \<^const>\<open>runCommand\<close> builds it for the platform.\<close>

definition probe :: "'a exec_env_scheme \<Rightarrow> string \<Rightarrow> string list \<Rightarrow> Cmd" where
  "probe env command args =
     (if GOOS env = ''windows'' then Command ''cmd'' (''/c'' # command # args)
      else Command command args)"

text \<open>
  The tools that \<^const>\<open>languages\<close> probes, in its order: name, icon, command and
  arguments of each.
\<close>

definition toolSpecs :: "(string \<times> string \<times> string \<times> string list) list" where
  "toolSpecs =
     [(''Python'', [CHR 0xF0, CHR 0x9F, CHR 0x90, CHR 0x8D], ''python'', [''--version'']),
      (''Go'', [CHR 0xF0, CHR 0x9F, CHR 0x9F, CHR 0xA2], ''go'', [''version'']),
      (''Node.js'', [CHR 0xF0, CHR 0x9F, CHR 0x9F, CHR 0xA8], ''node'', [''--version'']),
      (''Java'', [CHR 0xE2, CHR 0x98, CHR 0x95], ''java'', [''-version'']),
      (''Ruby'', [CHR 0xF0, CHR 0x9F, CHR 0x92, CHR 0x8E], ''ruby'', [''--version'']),
      (''Rust'', [CHR 0xF0, CHR 0x9F, CHR 0xA6, CHR 0x80], ''rustc'', [''--version'']),
      (''PHP'', [CHR 0xF0, CHR 0x9F, CHR 0x90, CHR 0x98], ''php'', [''--version''])]"

text \<open>
  The outputs on which the rule of a command does not apply: fewer than two fields for
  \<^verbatim>\<open>python\<close>, \<^verbatim>\<open>ruby\<close>, \<^verbatim>\<open>go\<close> and \<^verbatim>\<open>rustc\<close>; for \<^verbatim>\<open>java\<close> no double quote
  on any line containing \<^verbatim>\<open>version\<close>; the empty output for \<^verbatim>\<open>php\<close>; a command
  without a rule.
\<close>

definition ruleUnmatched :: "string \<Rightarrow> string \<Rightarrow> bool" where
  "ruleUnmatched command version \<longleftrightarrow>
     (command \<in> {''python'', ''ruby'', ''go'', ''rustc''} \<and> length (Fields version) < 2)
     \<or> (command = ''java''
         \<and> list_all (\<lambda>line. Contains line ''version'' \<longrightarrow> CHR 0x22 \<notin> set line)
              (Split version (CHR 0x0A)))
     \<or> (command = ''php'' \<and> version = [])
     \<or> command \<notin> {''python'', ''ruby'', ''go'', ''rustc'', ''node'', ''java'', ''php''}"

text \<open>
  The same with the wording ``no pair of double quotes'' for \<^verbatim>\<open>java\<close>: fewer than two
  double quotes on every line containing \<^verbatim>\<open>version\<close>.
\<close>

definition ruleUnmatchedNoPair :: "string \<Rightarrow> string \<Rightarrow> bool" where
  "ruleUnmatchedNoPair command version \<longleftrightarrow>
     (command \<in> {''python'', ''ruby'', ''go'', ''rustc''} \<and> length (Fields version) < 2)
     \<or> (command = ''java''
         \<and> list_all (\<lambda>line. Contains line ''version'' \<longrightarrow> count_list line (CHR 0x22) < 2)
              (Split version (CHR 0x0A)))
     \<or> (command = ''php'' \<and> version = [])
     \<or> command \<notin> {''python'', ''ruby'', ''go'', ''rustc'', ''node'', ''java'', ''php''}"

section \<open>Numbers and their formatting\<close>

text \<open>
  The Go type \<^verbatim>\<open>int\<close> has 64 bits: \<^term>\<open>int64 x\<close> is the value it holds after an
  operation whose exact result is \<open>x\<close>.
\<close>

definition int64 :: "int \<Rightarrow> int" where
  "int64 x = (x + 2 ^ 63) mod 2 ^ 64 - 2 ^ 63"

text \<open>
  A finite \<^verbatim>\<open>float64\<close> is the rational number it denotes.  A conversion or a division
  rounds the exact result to the nearest number with a significand of 53 bits, a tie
  to the even significand.  The exponent range is left out: the quotients of an integer
  below \<open>2\<^sup>6\<^sup>4\<close> by \<open>2\<^sup>3\<^sup>0\<close>, \<open>2\<^sup>2\<^sup>0\<close> or \<open>3600\<close> are zero or normal numbers.
\<close>

type_synonym float64 = rat

definition roundHalfEven :: "rat \<Rightarrow> int" where
  "roundHalfEven x =
     (let f = \<lfloor>x\<rfloor>; r = x - of_int f in
      if r < 1 / 2 then f
      else if 1 / 2 < r then f + 1
      else if even f then f else f + 1)"

text \<open>For \<open>x > 0\<close> the exponent \<open>e\<close> with \<open>2\<^sup>e \<le> x < 2\<^sup>e\<^sup>+\<^sup>1\<close>.\<close>

definition exponent2 :: "rat \<Rightarrow> int" where
  "exponent2 x =
     (let k = bitlen (fst (quotient_of x)) - bitlen (snd (quotient_of x))
      in if 2 powi k \<le> x then k else k - 1)"

definition roundFloat64 :: "rat \<Rightarrow> float64" where
  "roundFloat64 x =
     (if x = 0 then 0
      else
        let e = exponent2 \<bar>x\<bar>;
            m = roundHalfEven (\<bar>x\<bar> * 2 powi (52 - e))
        in sgn x * of_int m * 2 powi (e - 52))"

text \<open>The conversion \<^verbatim>\<open>float64(n)\<close> of a \<^verbatim>\<open>uint64\<close>, and the division of two floats.\<close>

definition float64_of_uint64 :: "64 word \<Rightarrow> float64" where
  "float64_of_uint64 n = roundFloat64 (of_int (uint n))"

definition float64_div :: "float64 \<Rightarrow> float64 \<Rightarrow> float64" where
  "float64_div x y = roundFloat64 (x / y)"

definition digit :: "nat \<Rightarrow> char" where
  "digit d = ''0123456789'' ! d"

fun formatNat :: "nat \<Rightarrow> string" where
  "formatNat n = (if n < 10 then [digit n] else formatNat (n div 10) @ [digit (n mod 10)])"

declare formatNat.simps [simp del]

text \<open>The verb \<^verbatim>\<open>%d\<close> of package \<^verbatim>\<open>fmt\<close> on an integer.\<close>

definition formatInt :: "int \<Rightarrow> string" where
  "formatInt i = (if i < 0 then ''-'' @ formatNat (nat (- i)) else formatNat (nat i))"

text \<open>
  The verb \<^verbatim>\<open>%.2f\<close> on a finite float: the exact value rounded to two decimals,
  a tie to the even digit, with the sign of the value.
\<close>

definition formatFloat2 :: "float64 \<Rightarrow> string" where
  "formatFloat2 x =
     (let n = nat (roundHalfEven (\<bar>x\<bar> * 100)) in
      (if x < 0 then ''-'' else [])
        @ formatNat (n div 100) @ ''.'' @ [digit (n div 10 mod 10), digit (n mod 10)])"

section \<open>Terminal styling (package color)\<close>

text \<open>
  A \<^verbatim>\<open>*color.Color\<close> is its list of SGR attributes.  \<^verbatim>\<open>Sprint\<close> returns the text as it
  is when the global \<^verbatim>\<open>color.NoColor\<close> is set, and otherwise puts it between the
  sequence that sets the attributes and the one that resets them, \<^verbatim>\<open>ESC[0m\<close> (later
  versions of the library reset each attribute by a code of its own, in a sequence of
  the same shape).  The library is not among the sources.
\<close>

type_synonym Color = "nat list"

definition FgWhite :: nat where "FgWhite = 37"
definition FgHiBlack :: nat where "FgHiBlack = 90"
definition FgHiGreen :: nat where "FgHiGreen = 92"
definition FgHiBlue :: nat where "FgHiBlue = 94"
definition Bold :: nat where "Bold = 1"

definition ESC :: char where
  "ESC = CHR 0x1B"

fun joinAttributes :: "nat list \<Rightarrow> string" where
  "joinAttributes [] = []"
| "joinAttributes [a] = formatNat a"
| "joinAttributes (a # b # rest) = formatNat a @ '';'' @ joinAttributes (b # rest)"

definition format :: "Color \<Rightarrow> string" where
  "format c = ESC # ''['' @ joinAttributes c @ ''m''"

definition unformat :: "Color \<Rightarrow> string" where
  "unformat c = ESC # ''[0m''"

definition Sprint :: "bool \<Rightarrow> Color \<Rightarrow> string \<Rightarrow> string" where
  "Sprint noColor c s = (if noColor then s else format c @ s @ unformat c)"

record colorSchemes =
  header :: Color
  section_color :: Color
  value_color :: Color
  border :: Color

definition createColorSchemes :: colorSchemes where
  "createColorSchemes =
     \<lparr>header = [FgHiGreen, Bold], section_color = [FgHiBlue, Bold], value_color = [FgWhite],
      border = [FgHiBlack, Bold]\<rparr>"


section \<open>Host metrics and the report (package system)\<close>

text \<open>The fields that the program reads of the results of \<^verbatim>\<open>gopsutil\<close>.\<close>

record InfoStat =
  host_Hostname :: string
  host_Uptime :: "64 word"
  host_Platform :: string
  host_PlatformVersion :: string
  host_KernelVersion :: string

record cpu_InfoStat =
  cpu_ModelName :: string

record VirtualMemoryStat =
  mem_Total :: "64 word"

record UsageStat =
  disk_Total :: "64 word"

record IOCountersStat =
  net_BytesSent :: "64 word"
  net_BytesRecv :: "64 word"

text \<open>
  The machine as the program queries it: each query of \<^verbatim>\<open>gopsutil\<close> returns its value
  or an error, \<^verbatim>\<open>os.ReadFile\<close> the bytes of a file or an error.
\<close>

record host_env = exec_env +
  host_Info :: "error + InfoStat"
  cpu_Info :: "error + cpu_InfoStat list"
  cpu_Counts :: "bool \<Rightarrow> error + int"
  mem_VirtualMemory :: "error + VirtualMemoryStat"
  disk_Usage :: "string \<Rightarrow> error + UsageStat"
  net_IOCounters :: "bool \<Rightarrow> error + IOCountersStat list"
  os_ReadFile :: "string \<Rightarrow> error + string"

record SystemInfo =
  Platform :: string
  Kernel :: string
  Hostname :: string
  CPU :: string
  Memory :: float64
  Disk :: float64
  Uptime :: float64
  NetworkSent :: float64
  NetworkRecv :: float64

text \<open>\<^verbatim>\<open>fmt.Errorf(format + "%v", err)\<close>.\<close>

definition Errorf :: "string \<Rightarrow> error \<Rightarrow> error" where
  "Errorf fmt err = Error (fmt @ message err)"

text \<open>
  \<^verbatim>\<open>collectSystemInfo\<close> returns \<open>Inr (Inl err)\<close> for \<^verbatim>\<open>(nil, err)\<close> and
  \<open>Inr (Inr info)\<close> for \<^verbatim>\<open>(&info, nil)\<close>; \<open>Inl\<close> is the panic of \<^verbatim>\<open>cpuInfo[0]\<close> or
  \<^verbatim>\<open>netInfo[0]\<close> on an empty slice.
\<close>

definition collectSystemInfo :: "'a host_env_scheme \<Rightarrow> panic + (error + SystemInfo)" where
  "collectSystemInfo env =
     (case host_Info env of
        Inl err \<Rightarrow> Inr (Inl (Errorf ''failed to get host info: '' err))
      | Inr hostInfo \<Rightarrow>
     (case cpu_Info env of
        Inl err \<Rightarrow> Inr (Inl (Errorf ''failed to get CPU info: '' err))
      | Inr cpuInfo \<Rightarrow>
     (case cpu_Counts env True of
        Inl err \<Rightarrow> Inr (Inl (Errorf ''failed to get CPU count: '' err))
      | Inr cpuCount \<Rightarrow>
     (case mem_VirtualMemory env of
        Inl err \<Rightarrow> Inr (Inl (Errorf ''failed to get memory info: '' err))
      | Inr memInfo \<Rightarrow>
     (case disk_Usage env ''/'' of
        Inl err \<Rightarrow> Inr (Inl (Errorf ''failed to get disk info: '' err))
      | Inr diskInfo \<Rightarrow>
     (case net_IOCounters env False of
        Inl err \<Rightarrow> Inr (Inl (Errorf ''failed to get network info: '' err))
      | Inr netInfo \<Rightarrow>
     (case cpuInfo of
        [] \<Rightarrow> Inl (IndexOutOfRange 0 0)
      | cpu0 # _ \<Rightarrow>
     (case netInfo of
        [] \<Rightarrow> Inl (IndexOutOfRange 0 0)
      | net0 # _ \<Rightarrow>
          Inr (Inr
            \<lparr>Platform = host_Platform hostInfo @ '' '' @ host_PlatformVersion hostInfo,
             Kernel = host_KernelVersion hostInfo,
             Hostname = host_Hostname hostInfo,
             CPU = cpu_ModelName cpu0 @ '' ('' @ formatInt cpuCount @ '' cores)'',
             Memory = float64_div (float64_of_uint64 (mem_Total memInfo)) (2 ^ 30),
             Disk = float64_div (float64_of_uint64 (disk_Total diskInfo)) (2 ^ 30),
             Uptime = float64_div (float64_of_uint64 (host_Uptime hostInfo)) 3600,
             NetworkSent = float64_div (float64_of_uint64 (net_BytesSent net0)) (2 ^ 20),
             NetworkRecv = float64_div (float64_of_uint64 (net_BytesRecv net0)) (2 ^ 20)\<rparr>
            )))))))))"

definition getDisplayWidth :: "string \<Rightarrow> int" where
  "getDisplayWidth s = int (RuneCountInString s)"

definition getPadding :: "string \<Rightarrow> int \<Rightarrow> panic + string" where
  "getPadding content totalWidth =
     (let displayWidth = getDisplayWidth content;
          paddingWidth = int64 (totalWidth - displayWidth);
          paddingWidth = (if paddingWidth < 0 then 0 else paddingWidth)
      in Repeat '' '' paddingWidth)"

text \<open>
  A value of the field \<^verbatim>\<open>value interface{}\<close> of a metric is a string or a
  \<^verbatim>\<open>float64\<close>.
\<close>

datatype metric_value = StringValue string | Float64Value float64

record metric =
  icon :: string
  name :: string
  val :: metric_value
  unit :: string

definition metrics :: "SystemInfo \<Rightarrow> metric list" where
  "metrics info =
     [\<lparr>icon = [CHR 0xEF, CHR 0x85, CHR 0xBC], name = ''Platform'',
       val = StringValue (Platform info), unit = []\<rparr>,
      \<lparr>icon = [CHR 0xEE, CHR 0x9C, CHR 0x8F], name = ''Kernel'',
       val = StringValue (Kernel info), unit = []\<rparr>,
      \<lparr>icon = [CHR 0xEE, CHR 0x9E, CHR 0x95], name = ''Hostname'',
       val = StringValue (Hostname info), unit = []\<rparr>,
      \<lparr>icon = [CHR 0xEF, CHR 0x92, CHR 0xBC], name = ''CPU'',
       val = StringValue (CPU info), unit = []\<rparr>,
      \<lparr>icon = [CHR 0xEF, CHR 0xA1, CHR 0x9A], name = ''Memory'',
       val = Float64Value (Memory info), unit = ''GB''\<rparr>,
      \<lparr>icon = [CHR 0xEF, CHR 0x82, CHR 0xA0], name = ''Disk'',
       val = Float64Value (Disk info), unit = ''GB''\<rparr>,
      \<lparr>icon = [CHR 0xEF, CHR 0x90, CHR 0xBA], name = ''Uptime'',
       val = Float64Value (Uptime info), unit = ''hours''\<rparr>,
      \<lparr>icon = [CHR 0xEF, CHR 0x9B, CHR 0xBF], name = ''Network'',
       val = StringValue
         ([CHR 0xE2, CHR 0x86, CHR 0x91] @ formatFloat2 (NetworkSent info) @ '' MB | ''
            @ [CHR 0xE2, CHR 0x86, CHR 0x93] @ formatFloat2 (NetworkRecv info) @ '' MB''),
       unit = []\<rparr>]"

text \<open>The variables \<^verbatim>\<open>valueStr\<close> and \<^verbatim>\<open>line\<close> of the loop of \<^verbatim>\<open>printSystemDetails\<close>.\<close>

definition valueStr :: "metric \<Rightarrow> string" where
  "valueStr m =
     (case val m of
        Float64Value v \<Rightarrow> formatFloat2 v @ '' '' @ unit m
      | StringValue s \<Rightarrow> s)"

definition metricLine :: "bool \<Rightarrow> colorSchemes \<Rightarrow> metric \<Rightarrow> string" where
  "metricLine noColor schemes m =
     icon m @ '' '' @ Sprint noColor (header schemes) (name m) @ '': ''
       @ Sprint noColor (value_color schemes) (valueStr m)"

text \<open>
  The state that the program changes: the global \<^verbatim>\<open>color.NoColor\<close> and what has been
  written to standard output, one element for each call that writes.
\<close>

record world =
  NoColor :: bool
  stdout :: "string list"

definition Println :: "string \<Rightarrow> world \<Rightarrow> world" where
  "Println s w = w\<lparr>stdout := stdout w @ [s @ [CHR 0x0A]]\<rparr>"

text \<open>The loop \<^verbatim>\<open>for _, metric := range metrics\<close>.\<close>

fun printMetrics :: "colorSchemes \<Rightarrow> metric list \<Rightarrow> world \<Rightarrow> world \<times> (panic + unit)" where
  "printMetrics schemes [] w = (w, Inr ())"
| "printMetrics schemes (m # ms) w =
     (case getPadding (metricLine (NoColor w) schemes m) 58 of
        Inl p \<Rightarrow> (w, Inl p)
      | Inr padding \<Rightarrow>
          printMetrics schemes ms
            (w\<lparr>stdout := stdout w @ ['' '' @ metricLine (NoColor w) schemes m @ padding @ '' '' @ [CHR 0x0A]]\<rparr>))"

definition printSystemDetails :: "SystemInfo \<Rightarrow> colorSchemes \<Rightarrow> world \<Rightarrow> world \<times> (panic + unit)" where
  "printSystemDetails info schemes w = printMetrics schemes (metrics info) w"

text \<open>
  \<^verbatim>\<open>PrintSystemInfo\<close> returns \<open>Inr None\<close> for \<^verbatim>\<open>nil\<close>, \<open>Inr (Some err)\<close> for an error,
  \<open>Inl\<close> for a panic.
\<close>

definition PrintSystemInfo ::
  "'a host_env_scheme \<Rightarrow> bool \<Rightarrow> world \<Rightarrow> world \<times> (panic + error option)" where
  "PrintSystemInfo env noColor w =
     (let w1 = w\<lparr>NoColor := noColor\<rparr> in
      case collectSystemInfo env of
        Inl p \<Rightarrow> (w1, Inl p)
      | Inr (Inl err) \<Rightarrow> (w1, Inr (Some (Errorf ''failed to collect system information: '' err)))
      | Inr (Inr info) \<Rightarrow>
          (case printSystemDetails info createColorSchemes w1 of
             (w2, Inl p) \<Rightarrow> (w2, Inl p)
           | (w2, Inr _) \<Rightarrow> (w2, Inr None)))"

section \<open>The command (packages ascii and cmd)\<close>

text \<open>
  \<^verbatim>\<open>filepath.Join\<close> on elements that are plain names, as the program calls it: the
  elements with the separator of the platform between them.
\<close>

fun filepath_Join :: "string \<Rightarrow> string list \<Rightarrow> string" where
  "filepath_Join goos [] = []"
| "filepath_Join goos [e] = e"
| "filepath_Join goos (e # f # rest) =
     e @ (if goos = ''windows'' then [CHR 0x5C] else ''/'') @ filepath_Join goos (f # rest)"

definition PrintASCIIArt :: "'a host_env_scheme \<Rightarrow> string \<Rightarrow> world \<Rightarrow> world" where
  "PrintASCIIArt env filename w =
     (let path = filepath_Join (GOOS env) [''ascii'', ''assets'', filename @ ''.txt''] in
      case os_ReadFile env path of
        Inl err \<Rightarrow> Println (''Error loading ASCII art: '' @ message err) w
      | Inr data \<Rightarrow> Println data w)"

definition runNeofetch ::
  "'a host_env_scheme \<Rightarrow> bool \<Rightarrow> bool \<Rightarrow> world \<Rightarrow> world \<times> (panic + unit)" where
  "runNeofetch env noAscii noColors w =
     (let w1 = (if \<not> noAscii then PrintASCIIArt env ''default'' w else w) in
      case PrintSystemInfo env noColors w1 of
        (w2, Inl p) \<Rightarrow> (w2, Inl p)
      | (w2, Inr (Some err)) \<Rightarrow> (w2, Inr ())
      | (w2, Inr None) \<Rightarrow> (w2, Inr ()))"

text \<open>
  What \<^verbatim>\<open>rootCmd.Execute()\<close> of the library \<^verbatim>\<open>cobra\<close> makes of the command line: an
  error that it returns (an unknown flag, say) without running the command, the help
  that it writes without running the command, or the run of the command with the two
  flags set.
\<close>

datatype command_line =
  CommandError error
| Help string
| Run (noAscii: bool) (noColors: bool)

text \<open>
  The ways the process ends: a call of \<^verbatim>\<open>os.Exit\<close>, the return of \<^verbatim>\<open>Execute\<close> to
  its caller, or a panic that nothing recovers.
\<close>

datatype ending = Exit nat | Returned | Panicked panic

definition Execute :: "'a host_env_scheme \<Rightarrow> command_line \<Rightarrow> world \<Rightarrow> world \<times> ending" where
  "Execute env cl w =
     (case cl of
        CommandError err \<Rightarrow> (Println (message err) w, Exit 1)
      | Help text \<Rightarrow> (w\<lparr>stdout := stdout w @ [text]\<rparr>, Returned)
      | Run a c \<Rightarrow>
          (case runNeofetch env a c w of
             (w', Inl p) \<Rightarrow> (w', Panicked p)
           | (w', Inr _) \<Rightarrow> (w', Returned)))"

text \<open>
  Modelled from the spec: the function \<^verbatim>\<open>main\<close>, which is not among the sources.  It
  calls \<^verbatim>\<open>Execute\<close> and returns, so that the exit code is 0 when \<^verbatim>\<open>Execute\<close> returns;
  the Go runtime ends a process whose panic is not recovered with exit code 2.
\<close>

definition exitCode :: "ending \<Rightarrow> nat" where
  "exitCode e = (case e of Exit n \<Rightarrow> n | Returned \<Rightarrow> 0 | Panicked p \<Rightarrow> 2)"

text \<open>
  The six queries of \<^const>\<open>collectSystemInfo\<close> in the order in which it makes them,
  each with the words that name it in the error and with its error, if it fails.
\<close>

definition failure :: "error + 'b \<Rightarrow> error option" where
  "failure r = (case r of Inl err \<Rightarrow> Some err | Inr _ \<Rightarrow> None)"

definition subQueries :: "'a host_env_scheme \<Rightarrow> (string \<times> error option) list" where
  "subQueries env =
     [(''host info'', failure (host_Info env)),
      (''CPU info'', failure (cpu_Info env)),
      (''CPU count'', failure (cpu_Counts env True)),
      (''memory info'', failure (mem_VirtualMemory env)),
      (''disk info'', failure (disk_Usage env ''/'')),
      (''network info'', failure (net_IOCounters env False))]"

text \<open>
  A machine on which every query succeeds and \<^verbatim>\<open>cpu.Info\<close> returns an empty slice
  with no error, as it does when \<^verbatim>\<open>/proc/cpuinfo\<close> lists no processor; no file of
  ASCII art, no tool installed.
\<close>

definition noProcessorHost :: host_env where
  "noProcessorHost =
     \<lparr>GOOS = ''linux'',
      CombinedOutput = (\<lambda>c. ([], Some (Error ''executable file not found''))),
      host_Info = Inr \<lparr>host_Hostname = ''box'', host_Uptime = 3600, host_Platform = ''debian'',
                        host_PlatformVersion = ''12'', host_KernelVersion = ''6.1.0''\<rparr>,
      cpu_Info = Inr [],
      cpu_Counts = (\<lambda>logical. Inr 4),
      mem_VirtualMemory = Inr \<lparr>mem_Total = 1073741824\<rparr>,
      disk_Usage = (\<lambda>path. Inr \<lparr>disk_Total = 0\<rparr>),
      net_IOCounters = (\<lambda>pernic. Inr [\<lparr>net_BytesSent = 0, net_BytesRecv = 0\<rparr>]),
      os_ReadFile = (\<lambda>path. Inl (Error ''no such file or directory''))\<rparr>"

text \<open>The same machine with one processor listed.\<close>

definition oneProcessorHost :: host_env where
  "oneProcessorHost = noProcessorHost\<lparr>cpu_Info := Inr [\<lparr>cpu_ModelName = ''Model''\<rparr>]\<rparr>"

text \<open>The same machine again, with a host name that carries a control sequence.\<close>

definition escapeHost :: host_env where
  "escapeHost =
     oneProcessorHost
       \<lparr>host_Info := Inr \<lparr>host_Hostname = ESC # ''[31mbox'', host_Uptime = 3600,
                           host_Platform = ''debian'', host_PlatformVersion = ''12'',
                           host_KernelVersion = ''6.1.0''\<rparr>\<rparr>"

text \<open>
  A text without its control sequences: from the byte \<^const>\<open>ESC\<close> and \<^verbatim>\<open>[\<close> up to the
  final byte of the sequence (a byte from \<^verbatim>\<open>@\<close> to \<^verbatim>\<open>~\<close>, \<^verbatim>\<open>m\<close> for a style).
\<close>

datatype ansi_state = Text | Escape | Sequence

fun stripFrom :: "ansi_state \<Rightarrow> string \<Rightarrow> string" where
  "stripFrom st [] = []"
| "stripFrom Text (c # cs) =
     (if c = ESC then stripFrom Escape cs else c # stripFrom Text cs)"
| "stripFrom Escape (c # cs) =
     (if c = CHR ''['' then stripFrom Sequence cs
      else if c = ESC then stripFrom Escape cs
      else c # stripFrom Text cs)"
| "stripFrom Sequence (c # cs) =
     (if 0x40 \<le> byte c \<and> byte c \<le> 0x7E then stripFrom Text cs else stripFrom Sequence cs)"

definition stripANSI :: "string \<Rightarrow> string" where
  "stripANSI s = stripFrom Text s"

text \<open>A line without the spaces and the newline that end it.\<close>

definition trimRight :: "string \<Rightarrow> string" where
  "trimRight s = rev (dropWhile (\<lambda>c. c = CHR '' '' \<or> c = CHR 0x0A) (rev s))"

section \<open>Properties of the toolchain detection\<close>

lemma splitFrom_no_sep: "sep \<notin> set s \<Longrightarrow> splitFrom cur s sep = [cur @ s]"
  by (induction s arbitrary: cur) auto

lemma splitFrom_at_sep:
  "sep \<notin> set a \<Longrightarrow> splitFrom cur (a @ sep # r) sep = (cur @ a) # splitFrom [] r sep"
  by (induction a arbitrary: cur) auto

lemma Split_no_sep: "sep \<notin> set s \<Longrightarrow> Split s sep = [s]"
  by (simp add: Split_def splitFrom_no_sep)

lemma Split_at_sep: "sep \<notin> set a \<Longrightarrow> Split (a @ sep # r) sep = a # Split r sep"
  by (simp add: Split_def splitFrom_at_sep)

lemma javaLines_skip:
  "list_all (\<lambda>l. Contains l ''version'' \<longrightarrow> CHR 0x22 \<notin> set l) before \<Longrightarrow>
   javaLines (before @ rest) = javaLines rest"
  by (induction before) (auto simp: Let_def Split_no_sep)

lemma javaLines_None:
  "list_all (\<lambda>l. Contains l ''version'' \<longrightarrow> CHR 0x22 \<notin> set l) ls \<Longrightarrow> javaLines ls = None"
  using javaLines_skip [of ls "[]"] by simp

lemma javaLines_hit:
  assumes "Contains (a @ CHR 0x22 # b @ CHR 0x22 # c) ''version''"
    and "CHR 0x22 \<notin> set a" "CHR 0x22 \<notin> set b"
  shows "javaLines ((a @ CHR 0x22 # b @ CHR 0x22 # c) # rest) = Some b"
proof -
  have "Split (a @ CHR 0x22 # b @ CHR 0x22 # c) (CHR 0x22) = a # b # Split c (CHR 0x22)"
    using assms by (simp add: Split_at_sep)
  with assms(1) show ?thesis by (simp add: Let_def)
qed

lemma appendInstalled_filter:
  "appendInstalled acc ls = acc @ filter (\<lambda>lang. Version lang \<noteq> []) ls"
  by (induction ls arbitrary: acc) auto

lemma in_GetProgrammingLanguages:
  "lang \<in> set (GetProgrammingLanguages env)
     \<longleftrightarrow> lang \<in> set (languages env) \<and> Version lang \<noteq> []"
  by (auto simp: GetProgrammingLanguages_def appendInstalled_filter)

lemma languages_toolSpecs:
  "languages env =
     map (\<lambda>(name, icon, command, args). languageDetector name icon (runCommand env command args))
       toolSpecs"
  by (simp add: languages_def toolSpecs_def getPythonVersion_def getGoVersion_def
      getNodeVersion_def getJavaVersion_def getRubyVersion_def getRustVersion_def
      getPHPVersion_def)

lemma runCommand_ok:
  "CombinedOutput env (probe env command args) = (output, None) \<Longrightarrow>
   runCommand env command args = processVersionString command (TrimSpace output)"
  by (simp add: runCommand_def probe_def Let_def)

lemma runCommand_failed:
  "snd (CombinedOutput env (probe env command args)) \<noteq> None \<Longrightarrow>
   runCommand env command args = []"
  by (auto simp: runCommand_def probe_def Let_def split: prod.splits option.splits)

lemma Fields_Nil: "Fields [] = []"
  by (simp add: Fields_def)

lemma unmatched_unchanged:
  assumes "ruleUnmatched command version"
  shows "processVersionString command version = version"
proof -
  from assms have
    "(command \<in> {''python'', ''ruby'', ''go'', ''rustc''} \<and> length (Fields version) < 2)
     \<or> (command = ''java''
         \<and> list_all (\<lambda>line. Contains line ''version'' \<longrightarrow> CHR 0x22 \<notin> set line)
              (Split version (CHR 0x0A)))
     \<or> (command = ''php'' \<and> version = [])
     \<or> command \<notin> {''python'', ''ruby'', ''go'', ''rustc'', ''node'', ''java'', ''php''}"
    by (simp only: ruleUnmatched_def)
  then show ?thesis
  proof (elim disjE conjE)
    assume "command \<in> {''python'', ''ruby'', ''go'', ''rustc''}" "length (Fields version) < 2"
    then show ?thesis
      by (simp add: processVersionString_def Let_def)
  next
    assume "command = ''java''"
      and "list_all (\<lambda>line. Contains line ''version'' \<longrightarrow> CHR 0x22 \<notin> set line)
             (Split version (CHR 0x0A))"
    then show ?thesis
      by (simp add: processVersionString_def javaLines_None)
  next
    assume "command = ''php''" "version = []"
    then show ?thesis
      by (simp add: processVersionString_def Fields_Nil)
  next
    assume "command \<notin> {''python'', ''ruby'', ''go'', ''rustc'', ''node'', ''java'', ''php''}"
    then show ?thesis
      by (simp add: processVersionString_def)
  qed
qed

text \<open>
  C2.  On the trimmed output \<^verbatim>\<open>PHP 8.1.2 (cli)\<close> the rule of \<^verbatim>\<open>php\<close>, the first
  field, gives \<^verbatim>\<open>PHP\<close>: the name of the tool, not the version \<^verbatim>\<open>8.1.2\<close>.
\<close>

theorem php_first_field_is_the_name:
  "TrimSpace ''PHP 8.1.2 (cli)'' = ''PHP 8.1.2 (cli)''
   \<and> processVersionString ''php'' ''PHP 8.1.2 (cli)'' = ''PHP''
   \<and> processVersionString ''php'' ''PHP 8.1.2 (cli)'' \<noteq> ''8.1.2''"
  by code_simp

text \<open>
  C3.  For each of the seven tools probed, when \<^verbatim>\<open>CombinedOutput\<close> of its probe
  returns an error (the binary is not found, the child exits non-zero),
  \<^const>\<open>runCommand\<close> returns the empty string and no entry of the list that
  \<^const>\<open>GetProgrammingLanguages\<close> returns has the name of the tool.  The result is a
  plain list: there is no error to hand to the caller.
\<close>

theorem failed_probe_is_excluded:
  assumes tool: "(tool, glyph, command, args) \<in> set toolSpecs"
    and fails: "snd (CombinedOutput env (probe env command args)) \<noteq> None"
  shows "runCommand env command args = []
         \<and> tool \<notin> Name ` set (GetProgrammingLanguages env)"
proof -
  have r: "runCommand env command args = []"
    using fails by (rule runCommand_failed)
  have "Version lang = []" if "lang \<in> set (languages env)" "Name lang = tool" for lang
    using that tool r unfolding languages_toolSpecs toolSpecs_def
    by (auto simp: languageDetector_def)
  then have "tool \<notin> Name ` set (GetProgrammingLanguages env)"
    by (auto simp: in_GetProgrammingLanguages)
  with r show ?thesis by simp
qed

text \<open>
  A machine on which every probe fails: no tool is reported, Ruby among them.
\<close>

theorem failed_probe_is_excluded_witness:
  "(''Ruby'', [CHR 0xF0, CHR 0x9F, CHR 0x92, CHR 0x8E], ''ruby'', [''--version'']) \<in> set toolSpecs
   \<and> snd (CombinedOutput \<lparr>GOOS = ''linux'', CombinedOutput = \<lambda>c. ([], Some (Error ''exit status 1''))\<rparr>
        (probe \<lparr>GOOS = ''linux'', CombinedOutput = \<lambda>c. ([], Some (Error ''exit status 1''))\<rparr>
           ''ruby'' [''--version''])) \<noteq> None
   \<and> runCommand \<lparr>GOOS = ''linux'', CombinedOutput = \<lambda>c. ([], Some (Error ''exit status 1''))\<rparr>
        ''ruby'' [''--version''] = []
   \<and> ''Ruby'' \<notin> Name ` set (GetProgrammingLanguages
        \<lparr>GOOS = ''linux'', CombinedOutput = \<lambda>c. ([], Some (Error ''exit status 1''))\<rparr>)"
proof -
  let ?env = "\<lparr>GOOS = ''linux'', CombinedOutput = \<lambda>c. ([], Some (Error ''exit status 1''))\<rparr>"
  have t: "(''Ruby'', [CHR 0xF0, CHR 0x9F, CHR 0x92, CHR 0x8E], ''ruby'', [''--version''])
             \<in> set toolSpecs"
    by (simp add: toolSpecs_def)
  have f: "snd (CombinedOutput ?env (probe ?env ''ruby'' [''--version''])) \<noteq> None"
    by simp
  have r: "runCommand ?env ''ruby'' [''--version''] = []
           \<and> ''Ruby'' \<notin> Name ` set (GetProgrammingLanguages ?env)"
    by (rule failed_probe_is_excluded [OF t f])
  show ?thesis
    by (intro conjI t f conjunct1 [OF r] conjunct2 [OF r])
qed


text \<open>
  C8.  On a \<^verbatim>\<open>java\<close> output, let \<open>line\<close> be the first line that contains \<^verbatim>\<open>version\<close>
  and a double quote (the lines \<open>before\<close> it lack one or the other).  When \<open>line\<close> has
  a second double quote, the result is the text \<open>b\<close> between the first two double
  quotes of \<open>line\<close>.
\<close>

theorem java_version_between_quotes:
  assumes lines: "Split version (CHR 0x0A) = before @ line # after"
    and skipped: "list_all (\<lambda>l. Contains l ''version'' \<longrightarrow> CHR 0x22 \<notin> set l) before"
    and hit: "Contains line ''version''"
    and quoted: "line = a @ CHR 0x22 # b @ CHR 0x22 # c"
    and first: "CHR 0x22 \<notin> set a" "CHR 0x22 \<notin> set b"
  shows "processVersionString ''java'' version = b"
proof -
  have "javaLines (before @ line # after) = javaLines (line # after)"
    using skipped by (rule javaLines_skip)
  also have "\<dots> = Some b"
    using hit first unfolding quoted by (rule javaLines_hit)
  finally show ?thesis
    by (simp add: processVersionString_def lines)
qed

text \<open>The output \<^verbatim>\<open>openjdk version "17.0.2" 2022-01-18\<close> gives \<^verbatim>\<open>17.0.2\<close>.\<close>

theorem java_version_between_quotes_witness:
  \<open>processVersionString ''java'' ''openjdk version "17.0.2" 2022-01-18'' = ''17.0.2''\<close>
proof -
  have 1: \<open>Split ''openjdk version "17.0.2" 2022-01-18'' (CHR 0x0A)
             = [] @ ''openjdk version "17.0.2" 2022-01-18'' # []\<close>
    by (simp add: Split_def)
  have 2: \<open>list_all (\<lambda>l. Contains l ''version'' \<longrightarrow> CHR 0x22 \<notin> set l) []\<close>
    by simp
  have 3: \<open>Contains ''openjdk version "17.0.2" 2022-01-18'' ''version''\<close>
    by simp
  have 4: \<open>''openjdk version "17.0.2" 2022-01-18''
             = ''openjdk version '' @ CHR 0x22 # ''17.0.2'' @ CHR 0x22 # '' 2022-01-18''\<close>
    by simp
  have 5: \<open>CHR 0x22 \<notin> set ''openjdk version ''\<close> and 6: \<open>CHR 0x22 \<notin> set ''17.0.2''\<close>
    by simp_all
  show ?thesis
    by (rule java_version_between_quotes [OF 1 2 3 4 5 6])
qed
text \<open>
  C10 as it is worded fails on a \<^verbatim>\<open>java\<close> line with one double quote: the line
  \<^verbatim>\<open>version "17\<close> has no pair of double quotes, and the result is the text \<^verbatim>\<open>17\<close>
  after the quote, not the output.
\<close>

theorem java_single_quote_counterexample:
  \<open>ruleUnmatchedNoPair ''java'' ''version "17''
   \<and> processVersionString ''java'' ''version "17'' = ''17''
   \<and> processVersionString ''java'' ''version "17'' \<noteq> ''version "17''\<close>
  by (simp add: ruleUnmatchedNoPair_def processVersionString_def Split_def)

text \<open>
  C10, amended.  When the rule of the command does not apply to the trimmed output
  (\<^const>\<open>ruleUnmatched\<close>: for \<^verbatim>\<open>java\<close>, no double quote at all on any line containing
  \<^verbatim>\<open>version\<close>), \<^const>\<open>processVersionString\<close> returns the output unchanged, a probe
  that succeeded with this output has it as the result of \<^const>\<open>runCommand\<close>, and an
  entry of \<^const>\<open>languages\<close> with this version, when it is not empty, is in the list
  that \<^const>\<open>GetProgrammingLanguages\<close> returns.
\<close>

theorem unmatched_output_is_kept:
  assumes "ruleUnmatched command version"
  shows "processVersionString command version = version
         \<and> (CombinedOutput env (probe env command args) = (output, None)
              \<and> TrimSpace output = version
            \<longrightarrow> runCommand env command args = version)
         \<and> (lang \<in> set (languages env) \<and> Version lang = version \<and> version \<noteq> []
            \<longrightarrow> lang \<in> set (GetProgrammingLanguages env))"
  using assms
  by (auto simp: unmatched_unchanged runCommand_ok in_GetProgrammingLanguages)

text \<open>
  A machine where every probe prints \<^verbatim>\<open>Python\<close> and a newline: the output of
  \<^verbatim>\<open>python\<close> has one field, and the entry for Python is reported with the version
  \<^verbatim>\<open>Python\<close>.
\<close>

theorem unmatched_output_is_kept_witness:
  "ruleUnmatched ''python'' ''Python''
   \<and> processVersionString ''python'' ''Python'' = ''Python''
   \<and> runCommand \<lparr>GOOS = ''linux'', CombinedOutput = \<lambda>c. (''Python'' @ [CHR 0x0A], None)\<rparr>
         ''python'' [''--version''] = ''Python''
   \<and> \<lparr>Icon = [CHR 0xF0, CHR 0x9F, CHR 0x90, CHR 0x8D], Name = ''Python'', Version = ''Python''\<rparr>
         \<in> set (GetProgrammingLanguages
               \<lparr>GOOS = ''linux'', CombinedOutput = \<lambda>c. (''Python'' @ [CHR 0x0A], None)\<rparr>)"
proof -
  let ?env = "\<lparr>GOOS = ''linux'', CombinedOutput = \<lambda>c. (''Python'' @ [CHR 0x0A], None)\<rparr>"
  let ?lang = "\<lparr>Icon = [CHR 0xF0, CHR 0x9F, CHR 0x90, CHR 0x8D], Name = ''Python'',
                 Version = ''Python''\<rparr>"
  have u: "ruleUnmatched ''python'' ''Python''"
    by code_simp
  have out: "CombinedOutput ?env (probe ?env ''python'' [''--version''])
               = (''Python'' @ [CHR 0x0A], None)"
    by simp
  have trim: "TrimSpace (''Python'' @ [CHR 0x0A]) = ''Python''"
    by code_simp
  note kept = unmatched_output_is_kept [OF u, of ?env "[''--version'']" "''Python'' @ [CHR 0x0A]" ?lang]
  have p: "processVersionString ''python'' ''Python'' = ''Python''"
    using kept by (rule conjunct1)
  have r: "runCommand ?env ''python'' [''--version''] = ''Python''"
    by (rule mp [OF conjunct1 [OF conjunct2 [OF kept]] conjI [OF out trim]])
  have l: "?lang \<in> set (languages ?env)"
    unfolding languages_def getPythonVersion_def r by (simp add: languageDetector_def)
  have v: "Version ?lang = ''Python''" and ne: "''Python'' \<noteq> []"
    by simp_all
  have m: "?lang \<in> set (GetProgrammingLanguages ?env)"
    by (rule mp [OF conjunct2 [OF conjunct2 [OF kept]] conjI [OF l conjI [OF v ne]]])
  show ?thesis
    by (intro conjI u p r m)
qed

section \<open>Properties of the padding\<close>


lemma int64_id: "- (2 ^ 63) \<le> x \<Longrightarrow> x < 2 ^ 63 \<Longrightarrow> int64 x = x"
  by (simp add: int64_def)

lemma DecodeRuneInString_width:
  "s \<noteq> [] \<Longrightarrow> 1 \<le> snd (DecodeRuneInString s) \<and> snd (DecodeRuneInString s) \<le> length s"
  by (cases s) (auto simp: DecodeRuneInString_def Let_def Suc_le_eq less_Suc_eq_le not_less)

lemma length_decodeRunes: "length (decodeRunes s) \<le> length s"
proof (induction s rule: decodeRunes.induct)
  case (1 s)
  show ?case
  proof (cases "s = []")
    case True
    then show ?thesis by (simp add: decodeRunes.simps)
  next
    case False
    with 1 have "length (decodeRunes (drop (snd (DecodeRuneInString s)) s))
                   \<le> length s - snd (DecodeRuneInString s)"
      by simp
    moreover have "1 \<le> snd (DecodeRuneInString s) \<and> snd (DecodeRuneInString s) \<le> length s"
      using False by (rule DecodeRuneInString_width)
    moreover have "length (decodeRunes s)
                     = Suc (length (decodeRunes (drop (snd (DecodeRuneInString s)) s)))"
      using False by (subst decodeRunes.simps) simp
    ultimately show ?thesis
      by linarith
  qed
qed

lemma concat_replicate_space: "concat (replicate n '' '') = replicate n (CHR '' '')"
  by (induction n) auto

text \<open>
  C6.  For a total width that is not negative (and a string that fits in memory),
  \<^const>\<open>getPadding\<close> returns \<open>max 0 (totalWidth - n)\<close> spaces, where \<open>n\<close> is the number
  of code points of the string; it returns the empty string when \<open>n\<close> equals the total
  width and when \<open>n\<close> exceeds it.
\<close>

theorem getPadding_spaces:
  assumes "0 \<le> totalWidth" "totalWidth < 2 ^ 63" "length content < 2 ^ 63"
  shows "getPadding content totalWidth
           = Inr (replicate (nat (max 0 (totalWidth - getDisplayWidth content))) (CHR '' ''))
         \<and> (getDisplayWidth content = totalWidth \<longrightarrow> getPadding content totalWidth = Inr [])
         \<and> (totalWidth < getDisplayWidth content \<longrightarrow> getPadding content totalWidth = Inr [])"
proof -
  have "getDisplayWidth content \<le> int (length content)"
    by (simp add: getDisplayWidth_def RuneCountInString_def length_decodeRunes)
  moreover have "0 \<le> getDisplayWidth content"
    by (simp add: getDisplayWidth_def)
  ultimately have "int64 (totalWidth - getDisplayWidth content) = totalWidth - getDisplayWidth content"
    using assms by (intro int64_id) auto
  then have "getPadding content totalWidth
           = Inr (replicate (nat (max 0 (totalWidth - getDisplayWidth content))) (CHR '' ''))"
    by (auto simp: getPadding_def Let_def Repeat_def concat_replicate_space max_def)
  then show ?thesis by auto
qed

text \<open>
  The string of the icon U+F17C, a space and \<^verbatim>\<open>CPU\<close> has six bytes and five code
  points: no padding for the widths 5 and 3, 53 spaces for the width 58.
\<close>

theorem getPadding_spaces_witness:
  "getPadding ([CHR 0xEF, CHR 0x85, CHR 0xBC] @ '' CPU'') 5 = Inr []
   \<and> getPadding ([CHR 0xEF, CHR 0x85, CHR 0xBC] @ '' CPU'') 3 = Inr []
   \<and> getPadding ([CHR 0xEF, CHR 0x85, CHR 0xBC] @ '' CPU'') 58 = Inr (replicate 53 (CHR '' ''))"
proof -
  let ?s = "[CHR 0xEF, CHR 0x85, CHR 0xBC] @ '' CPU''"
  have w: "getDisplayWidth ?s = 5"
    by (simp add: getDisplayWidth_def RuneCountInString_def decodeRunes.simps
        DecodeRuneInString_def byte_def)
  have len: "length ?s < 2 ^ 63"
    by simp
  have p5: "(0::int) \<le> 5" "(5::int) < 2 ^ 63" and p3: "(0::int) \<le> 3" "(3::int) < 2 ^ 63"
    and p58: "(0::int) \<le> 58" "(58::int) < 2 ^ 63"
    by simp_all
  have eq: "getPadding ?s 5 = Inr []"
    by (rule mp [OF conjunct1 [OF conjunct2 [OF getPadding_spaces [OF p5 len]]] w])
  have "(3::int) < getDisplayWidth ?s"
    unfolding w by simp
  then have gt: "getPadding ?s 3 = Inr []"
    by (rule mp [OF conjunct2 [OF conjunct2 [OF getPadding_spaces [OF p3 len]]]])
  have "nat (max 0 (58 - getDisplayWidth ?s)) = 53"
    unfolding w by simp
  then have lt: "getPadding ?s 58 = Inr (replicate 53 (CHR '' ''))"
    using conjunct1 [OF getPadding_spaces [OF p58 len]] by (simp only:)
  show ?thesis
    by (intro conjI eq gt lt)
qed


section \<open>Properties of the collection\<close>


lemma collect_host_fails:
  "host_Info env = Inl err \<Longrightarrow>
   collectSystemInfo env = Inr (Inl (Errorf ''failed to get host info: '' err))"
  by (simp add: collectSystemInfo_def)

lemma collect_cpu_fails:
  "host_Info env = Inr h \<Longrightarrow> cpu_Info env = Inl err \<Longrightarrow>
   collectSystemInfo env = Inr (Inl (Errorf ''failed to get CPU info: '' err))"
  by (simp add: collectSystemInfo_def)

lemma collect_count_fails:
  "host_Info env = Inr h \<Longrightarrow> cpu_Info env = Inr c \<Longrightarrow> cpu_Counts env True = Inl err \<Longrightarrow>
   collectSystemInfo env = Inr (Inl (Errorf ''failed to get CPU count: '' err))"
  by (simp add: collectSystemInfo_def)

lemma collect_mem_fails:
  "host_Info env = Inr h \<Longrightarrow> cpu_Info env = Inr c \<Longrightarrow> cpu_Counts env True = Inr n \<Longrightarrow>
   mem_VirtualMemory env = Inl err \<Longrightarrow>
   collectSystemInfo env = Inr (Inl (Errorf ''failed to get memory info: '' err))"
  by (simp add: collectSystemInfo_def)

lemma collect_disk_fails:
  "host_Info env = Inr h \<Longrightarrow> cpu_Info env = Inr c \<Longrightarrow> cpu_Counts env True = Inr n \<Longrightarrow>
   mem_VirtualMemory env = Inr m \<Longrightarrow> disk_Usage env ''/'' = Inl err \<Longrightarrow>
   collectSystemInfo env = Inr (Inl (Errorf ''failed to get disk info: '' err))"
  by (simp add: collectSystemInfo_def)

lemma collect_net_fails:
  "host_Info env = Inr h \<Longrightarrow> cpu_Info env = Inr c \<Longrightarrow> cpu_Counts env True = Inr n \<Longrightarrow>
   mem_VirtualMemory env = Inr m \<Longrightarrow> disk_Usage env ''/'' = Inr d \<Longrightarrow>
   net_IOCounters env False = Inl err \<Longrightarrow>
   collectSystemInfo env = Inr (Inl (Errorf ''failed to get network info: '' err))"
  by (simp add: collectSystemInfo_def)

lemma first_failure:
  assumes "\<exists>q \<in> set (subQueries env). snd q \<noteq> None"
  shows "\<exists>what err.
           find (\<lambda>q. snd q \<noteq> None) (subQueries env) = Some (what, Some err)
           \<and> collectSystemInfo env
                = Inr (Inl (Error (''failed to get '' @ what @ '': '' @ message err)))"
proof (cases "host_Info env")
  case (Inl err)
  then show ?thesis
    by (simp add: subQueries_def failure_def collect_host_fails Errorf_def)
next
  case h: (Inr h)
  show ?thesis
  proof (cases "cpu_Info env")
    case (Inl err)
    with h show ?thesis
      by (simp add: subQueries_def failure_def collect_cpu_fails Errorf_def)
  next
    case c: (Inr c)
    show ?thesis
    proof (cases "cpu_Counts env True")
      case (Inl err)
      with h c show ?thesis
        by (simp add: subQueries_def failure_def collect_count_fails Errorf_def)
    next
      case n: (Inr n)
      show ?thesis
      proof (cases "mem_VirtualMemory env")
        case (Inl err)
        with h c n show ?thesis
          by (simp add: subQueries_def failure_def collect_mem_fails Errorf_def)
      next
        case m: (Inr m)
        show ?thesis
        proof (cases "disk_Usage env ''/''")
          case (Inl err)
          with h c n m show ?thesis
            by (simp add: subQueries_def failure_def collect_disk_fails Errorf_def)
        next
          case d: (Inr d)
          show ?thesis
          proof (cases "net_IOCounters env False")
            case (Inl err)
            with h c n m d show ?thesis
              by (simp add: subQueries_def failure_def collect_net_fails Errorf_def)
          next
            case (Inr x)
            with h c n m d assms show ?thesis
              by (simp add: subQueries_def failure_def)
          qed
        qed
      qed
    qed
  qed
qed

lemma PrintSystemInfo_error:
  "collectSystemInfo env = Inr (Inl err) \<Longrightarrow>
   PrintSystemInfo env noColor w
     = (w\<lparr>NoColor := noColor\<rparr>, Inr (Some (Errorf ''failed to collect system information: '' err)))"
  by (simp add: PrintSystemInfo_def Let_def)

text \<open>
  C1.  When one of the six queries fails, let \<open>what\<close> and \<open>err\<close> be the name and the
  error of the first that does, in the order of \<^const>\<open>subQueries\<close>.  Then
  \<^const>\<open>collectSystemInfo\<close> returns one error, whose message names \<open>what\<close> and carries
  \<open>err\<close>, and no \<^typ>\<open>SystemInfo\<close>; \<^const>\<open>PrintSystemInfo\<close> returns that error under
  the prefix \<^verbatim>\<open>failed to collect system information:\<close>, and writes nothing.
\<close>

theorem failed_query_aborts_report:
  assumes "\<exists>q \<in> set (subQueries env). snd q \<noteq> None"
  shows "\<exists>what err.
           find (\<lambda>q. snd q \<noteq> None) (subQueries env) = Some (what, Some err)
           \<and> collectSystemInfo env
                = Inr (Inl (Error (''failed to get '' @ what @ '': '' @ message err)))
           \<and> snd (PrintSystemInfo env noColor w)
                = Inr (Some (Error (''failed to collect system information: failed to get ''
                                      @ what @ '': '' @ message err)))
           \<and> stdout (fst (PrintSystemInfo env noColor w)) = stdout w"
proof -
  from first_failure [OF assms] obtain what err where
    f: "find (\<lambda>q. snd q \<noteq> None) (subQueries env) = Some (what, Some err)"
    and c: "collectSystemInfo env
              = Inr (Inl (Error (''failed to get '' @ what @ '': '' @ message err)))"
    by blast
  have p: "PrintSystemInfo env noColor w
     = (w\<lparr>NoColor := noColor\<rparr>,
        Inr (Some (Errorf ''failed to collect system information: ''
                     (Error (''failed to get '' @ what @ '': '' @ message err)))))"
    using c by (rule PrintSystemInfo_error)
  have "snd (PrintSystemInfo env noColor w)
          = Inr (Some (Error (''failed to collect system information: failed to get ''
                                @ what @ '': '' @ message err)))"
    unfolding p by (simp add: Errorf_def)
  moreover have "stdout (fst (PrintSystemInfo env noColor w)) = stdout w"
    unfolding p by simp
  ultimately show ?thesis
    using f c by (intro exI [of _ what] exI [of _ err] conjI)
qed

text \<open>
  On \<^const>\<open>noProcessorHost\<close> with a memory query that fails, the error is the one of
  the memory query, although the slice of processors is empty.
\<close>

theorem failed_query_aborts_report_witness:
  "(\<exists>q \<in> set (subQueries (noProcessorHost\<lparr>mem_VirtualMemory := Inl (Error ''permission denied'')\<rparr>)).
      snd q \<noteq> None)
   \<and> collectSystemInfo (noProcessorHost\<lparr>mem_VirtualMemory := Inl (Error ''permission denied'')\<rparr>)
       = Inr (Inl (Error ''failed to get memory info: permission denied''))
   \<and> snd (PrintSystemInfo (noProcessorHost\<lparr>mem_VirtualMemory := Inl (Error ''permission denied'')\<rparr>)
             True \<lparr>NoColor = False, stdout = []\<rparr>)
       = Inr (Some (Error
           ''failed to collect system information: failed to get memory info: permission denied''))
   \<and> stdout (fst (PrintSystemInfo
                     (noProcessorHost\<lparr>mem_VirtualMemory := Inl (Error ''permission denied'')\<rparr>)
                     True \<lparr>NoColor = False, stdout = []\<rparr>)) = []"
proof -
  let ?env = "noProcessorHost\<lparr>mem_VirtualMemory := Inl (Error ''permission denied'')\<rparr>"
  let ?w = "\<lparr>NoColor = False, stdout = []\<rparr>"
  have q: "subQueries ?env =
     [(''host info'', None), (''CPU info'', None), (''CPU count'', None),
      (''memory info'', Some (Error ''permission denied'')), (''disk info'', None),
      (''network info'', None)]"
    by (simp add: subQueries_def failure_def noProcessorHost_def)
  have h: "\<exists>q \<in> set (subQueries ?env). snd q \<noteq> None"
    unfolding q by simp
  have f: "find (\<lambda>q. snd q \<noteq> None) (subQueries ?env)
             = Some (''memory info'', Some (Error ''permission denied''))"
    unfolding q by simp
  from failed_query_aborts_report [OF h, of True ?w] obtain what err where
    r: "find (\<lambda>q. snd q \<noteq> None) (subQueries ?env) = Some (what, Some err)"
       "collectSystemInfo ?env
          = Inr (Inl (Error (''failed to get '' @ what @ '': '' @ message err)))"
       "snd (PrintSystemInfo ?env True ?w)
          = Inr (Some (Error (''failed to collect system information: failed to get ''
                                @ what @ '': '' @ message err)))"
       "stdout (fst (PrintSystemInfo ?env True ?w)) = stdout ?w"
    by blast
  from r(1) f have e: "what = ''memory info''" "err = Error ''permission denied''"
    by simp_all
  have c: "collectSystemInfo ?env
             = Inr (Inl (Error ''failed to get memory info: permission denied''))"
    using r(2) unfolding e by simp
  have p: "snd (PrintSystemInfo ?env True ?w) = Inr (Some (Error
           ''failed to collect system information: failed to get memory info: permission denied''))"
    using r(3) unfolding e by simp
  have s: "stdout (fst (PrintSystemInfo ?env True ?w)) = []"
    using r(4) by simp
  show ?thesis
    by (intro conjI h c p s)
qed

subsection \<open>Exit codes\<close>

lemma PrintASCIIArt_NoColor: "NoColor (PrintASCIIArt env f w) = NoColor w"
  by (simp add: PrintASCIIArt_def Println_def Let_def split: sum.splits)

lemma runNeofetch_swallows_error:
  assumes "collectSystemInfo env = Inr (Inl err)"
  shows "snd (runNeofetch env a c w) = Inr ()
         \<and> snd (Execute env (Run a c) w) = Returned
         \<and> exitCode (snd (Execute env (Run a c) w)) = 0"
proof -
  have "snd (runNeofetch env a c w) = Inr ()"
    by (simp add: runNeofetch_def Let_def PrintSystemInfo_error [OF assms])
  then show ?thesis
    by (cases "runNeofetch env a c w") (simp add: Execute_def exitCode_def)
qed

lemma nonzero_exit_code:
  assumes "exitCode (snd (Execute env cl w)) \<noteq> 0"
  shows "(\<exists>err. cl = CommandError err) \<or> (\<exists>p. snd (Execute env cl w) = Panicked p)"
proof (cases cl)
  case (CommandError err)
  then show ?thesis by simp
next
  case (Help usage)
  with assms show ?thesis
    by (simp add: Execute_def exitCode_def)
next
  case (Run a c)
  with assms show ?thesis
    by (cases "runNeofetch env a c w"; cases "snd (runNeofetch env a c w)")
       (simp_all add: Execute_def exitCode_def)
qed

text \<open>
  C9.  On \<^const>\<open>noProcessorHost\<close> no query fails and the command line is accepted, yet
  the run ends in the panic of \<^verbatim>\<open>cpuInfo[0]\<close>: the exit code is 2, not zero, without
  any error of the top-level command.
\<close>

theorem empty_cpu_info_exits_2:
  "list_all (\<lambda>q. snd q = None) (subQueries noProcessorHost)
   \<and> snd (Execute noProcessorHost (Run False False) \<lparr>NoColor = False, stdout = []\<rparr>)
       = Panicked (IndexOutOfRange 0 0)
   \<and> exitCode (snd (Execute noProcessorHost (Run False False) \<lparr>NoColor = False, stdout = []\<rparr>))
       = 2"
proof -
  have c: "collectSystemInfo noProcessorHost = Inl (IndexOutOfRange 0 0)"
    by (simp add: collectSystemInfo_def noProcessorHost_def)
  have "snd (runNeofetch noProcessorHost False False \<lparr>NoColor = False, stdout = []\<rparr>)
          = Inl (IndexOutOfRange 0 0)"
    by (simp add: runNeofetch_def PrintSystemInfo_def Let_def c)
  then have e: "snd (Execute noProcessorHost (Run False False) \<lparr>NoColor = False, stdout = []\<rparr>)
       = Panicked (IndexOutOfRange 0 0)"
    by (cases "runNeofetch noProcessorHost False False \<lparr>NoColor = False, stdout = []\<rparr>")
       (simp add: Execute_def)
  have q: "list_all (\<lambda>q. snd q = None) (subQueries noProcessorHost)"
    by (simp add: subQueries_def failure_def noProcessorHost_def)
  show ?thesis
    unfolding e by (intro conjI q refl) (simp add: exitCode_def)
qed


section \<open>Properties of the conversions\<close>

lemma roundHalfEven_of_int: "roundHalfEven (of_int n) = n"
  by (simp add: roundHalfEven_def)

lemma exponent2_le:
  assumes "0 < x"
  shows "2 powi (exponent2 x) \<le> x"
proof -
  obtain a b where q: "quotient_of x = (a, b)"
    by force
  have b: "0 < b"
    using q by (rule quotient_of_denom_pos)
  have x: "x = of_int a / of_int b"
    using q by (rule quotient_of_div)
  have a: "0 < a"
    using assms b unfolding x by (simp add: zero_less_divide_iff)
  define k where "k = bitlen a - bitlen b"
  have la: "(2::rat) ^ nat (bitlen a - 1) \<le> of_int a"
    using bitlen_bounds [OF a] by (metis of_int_le_iff of_int_numeral of_int_power)
  have lb: "of_int b \<le> (2::rat) ^ nat (bitlen b)"
    using bitlen_bounds [OF b] by (metis less_le of_int_le_iff of_int_numeral of_int_power)
  have ba: "1 \<le> bitlen a" and bb: "1 \<le> bitlen b"
    using a b bitlen_eq_zero_iff [of a] bitlen_eq_zero_iff [of b] bitlen_nonneg [of a]
      bitlen_nonneg [of b] by linarith+
  have "(2::rat) powi (k - 1) = 2 powi (bitlen a - 1) / 2 powi (bitlen b)"
    unfolding k_def by (simp add: power_int_diff)
  also have "\<dots> = 2 ^ nat (bitlen a - 1) / 2 ^ nat (bitlen b)"
    using ba bb by (simp add: power_int_nonneg_exp)
  also have "\<dots> \<le> of_int a / of_int b"
    using la lb a b by (intro frac_le) simp_all
  finally have low: "2 powi (k - 1) \<le> x"
    unfolding x .
  show ?thesis
    using low unfolding exponent2_def q k_def by (simp add: Let_def)
qed

lemma roundFloat64_dyadic:
  assumes n: "0 \<le> n" "n < 2 ^ 53"
  shows "roundFloat64 (of_int n / 2 ^ k) = of_int n / 2 ^ k"
proof (cases "n = 0")
  case True
  then show ?thesis by (simp add: roundFloat64_def)
next
  case False
  define x :: rat where "x = of_int n / 2 ^ k"
  have pos: "0 < x"
    using n False by (simp add: x_def)
  define e where "e = exponent2 x"
  have low: "2 powi e \<le> x"
    unfolding e_def using pos by (rule exponent2_le)
  have nn: "(of_int n :: rat) < 2 ^ 53"
    using n(2) by (metis of_int_less_iff of_int_numeral of_int_power)
  have "x < 2 ^ 53 / 2 ^ k"
    unfolding x_def using nn by (simp add: divide_strict_right_mono)
  also have "\<dots> = 2 powi (53 - int k)"
    by (simp add: power_int_diff)
  finally have up: "x < 2 powi (53 - int k)" .
  have "\<not> 53 - int k \<le> e"
  proof
    assume "53 - int k \<le> e"
    then have "(2::rat) powi (53 - int k) \<le> 2 powi e"
      by (intro power_int_increasing) simp_all
    with low up show False by simp
  qed
  then have "0 \<le> 52 - e - int k"
    by simp
  define j where "j = nat (52 - e - int k)"
  have j: "52 - e = int k + int j"
    using \<open>0 \<le> 52 - e - int k\<close> by (simp add: j_def)
  have "x * 2 powi (52 - e) = of_int (n * 2 ^ j)"
    unfolding j x_def by (simp add: power_int_add)
  then have m: "roundHalfEven (\<bar>x\<bar> * 2 powi (52 - e)) = n * 2 ^ j"
    using pos by (simp add: roundHalfEven_of_int del: of_int_mult of_int_power)
  have "e - 52 = - (int k + int j)"
    using j by linarith
  then have "(2::rat) powi (e - 52) = 2 powi (- (int k + int j))"
    by (simp only:)
  also have "\<dots> = 1 / (2 ^ k * 2 ^ j)"
    by (subst power_int_minus_divide) (simp add: power_int_add)
  finally have p: "(2::rat) powi (e - 52) = 1 / (2 ^ k * 2 ^ j)" .
  have sg: "sgn x = 1"
    using pos by simp
  have "sgn x * of_int (n * 2 ^ j) * 2 powi (e - 52) = x"
    unfolding sg p by (simp add: x_def)
  then have r: "of_int (n * 2 ^ j) * (2::rat) powi (e - 52) = x"
    unfolding sg by simp
  have "roundFloat64 x
          = sgn x * of_int (roundHalfEven (\<bar>x\<bar> * 2 powi (52 - e))) * 2 powi (e - 52)"
    using pos by (simp add: roundFloat64_def Let_def e_def)
  also have "\<dots> = of_int (n * 2 ^ j) * 2 powi (e - 52)"
    unfolding m sg by simp
  also have "\<dots> = x"
    by (rule r)
  finally show ?thesis
    unfolding x_def .
qed

lemma float64_of_uint64_exact:
  "uint n < 2 ^ 53 \<Longrightarrow> float64_of_uint64 n = of_int (uint n)"
  using roundFloat64_dyadic [of "uint n" 0] by (simp add: float64_of_uint64_def)

lemma float64_div_pow2_exact:
  "0 \<le> n \<Longrightarrow> n < 2 ^ 53 \<Longrightarrow> float64_div (of_int n) (2 ^ k) = of_int n / 2 ^ k"
  by (simp add: float64_div_def roundFloat64_dyadic)

lemma bytes_to_GB_exact:
  assumes "uint n < 2 ^ 53"
  shows "float64_div (float64_of_uint64 n) (2 ^ 30) = of_int (uint n) / 2 ^ 30"
  unfolding float64_of_uint64_exact [OF assms]
  by (rule float64_div_pow2_exact [OF _ assms]) simp

lemma formatFloat2_0: "formatFloat2 0 = ''0.00''"
  by (simp add: formatFloat2_def roundHalfEven_def formatNat.simps digit_def)

lemma formatFloat2_1: "formatFloat2 1 = ''1.00''"
  using roundHalfEven_of_int [of 100]
  by (simp add: formatFloat2_def formatNat.simps digit_def)

lemma formatFloat2_3_2: "formatFloat2 (3 / 2) = ''1.50''"
  using roundHalfEven_of_int [of 150]
  by (simp add: formatFloat2_def formatNat.simps digit_def)

lemma seconds_3600: "float64_div (float64_of_uint64 3600) 3600 = 1"
proof -
  have "float64_of_uint64 3600 = 3600"
    using float64_of_uint64_exact [of 3600] by simp
  moreover have "roundFloat64 1 = 1"
    using roundFloat64_dyadic [of 1 0] by simp
  ultimately show ?thesis
    by (simp add: float64_div_def)
qed

lemma seconds_5400: "float64_div (float64_of_uint64 5400) 3600 = 3 / 2"
proof -
  have "float64_of_uint64 5400 = 5400"
    using float64_of_uint64_exact [of 5400] by simp
  moreover have "roundFloat64 (3 / 2) = 3 / 2"
    using roundFloat64_dyadic [of 3 1] by simp
  ultimately show ?thesis
    by (simp add: float64_div_def)
qed

lemma collect_success:
  assumes "collectSystemInfo env = Inr (Inr info)"
    and "host_Info env = Inr h" "mem_VirtualMemory env = Inr m" "disk_Usage env ''/'' = Inr d"
  shows "Memory info = float64_div (float64_of_uint64 (mem_Total m)) (2 ^ 30)"
    and "Disk info = float64_div (float64_of_uint64 (disk_Total d)) (2 ^ 30)"
    and "Uptime info = float64_div (float64_of_uint64 (host_Uptime h)) 3600"
  using assms
  by (auto simp: collectSystemInfo_def split: sum.splits list.splits)

lemma valueStr_Memory: "valueStr (metrics info ! 4) = formatFloat2 (Memory info) @ '' GB''"
  by (simp add: metrics_def valueStr_def)

lemma valueStr_Disk: "valueStr (metrics info ! 5) = formatFloat2 (Disk info) @ '' GB''"
  by (simp add: metrics_def valueStr_def)

lemma valueStr_Uptime: "valueStr (metrics info ! 6) = formatFloat2 (Uptime info) @ '' hours''"
  by (simp add: metrics_def valueStr_def)

lemma GB_1: "float64_div (float64_of_uint64 1073741824) (2 ^ 30) = 1"
  using bytes_to_GB_exact [of 1073741824] by simp

lemma GB_0: "float64_div (float64_of_uint64 0) (2 ^ 30) = 0"
  using bytes_to_GB_exact [of 0] by simp

text \<open>
  C5.  After a collection that succeeds, the fields \<open>Memory\<close> and \<open>Disk\<close> are the totals
  in bytes, converted to \<^verbatim>\<open>float64\<close> and divided by \<open>2\<^sup>3\<^sup>0\<close>, and \<open>Uptime\<close> is the
  seconds, converted and divided by 3600.  For a total below \<open>2\<^sup>5\<^sup>3\<close> the quotient by
  \<open>2\<^sup>3\<^sup>0\<close> is held exactly, and the hours are the exact quotient rounded once to the
  nearest \<^verbatim>\<open>float64\<close>: nothing is rounded to decimals.  Rendered through \<^verbatim>\<open>%.2f\<close>,
  1073741824 bytes give \<^verbatim>\<open>1.00 GB\<close>, 0 bytes \<^verbatim>\<open>0.00 GB\<close>, 3600 seconds
  \<^verbatim>\<open>1.00 hours\<close> and 5400 seconds \<^verbatim>\<open>1.50 hours\<close>.
\<close>

theorem collected_conversions:
  assumes "collectSystemInfo env = Inr (Inr info)"
    and "host_Info env = Inr h" "mem_VirtualMemory env = Inr m" "disk_Usage env ''/'' = Inr d"
  shows "Memory info = float64_div (float64_of_uint64 (mem_Total m)) (2 ^ 30)
         \<and> Disk info = float64_div (float64_of_uint64 (disk_Total d)) (2 ^ 30)
         \<and> Uptime info = float64_div (float64_of_uint64 (host_Uptime h)) 3600
         \<and> (uint (mem_Total m) < 2 ^ 53 \<longrightarrow> Memory info = of_int (uint (mem_Total m)) / 2 ^ 30)
         \<and> (uint (disk_Total d) < 2 ^ 53 \<longrightarrow> Disk info = of_int (uint (disk_Total d)) / 2 ^ 30)
         \<and> (uint (host_Uptime h) < 2 ^ 53 \<longrightarrow>
              Uptime info = roundFloat64 (of_int (uint (host_Uptime h)) / 3600))
         \<and> (mem_Total m = 1073741824 \<longrightarrow> valueStr (metrics info ! 4) = ''1.00 GB'')
         \<and> (mem_Total m = 0 \<longrightarrow> valueStr (metrics info ! 4) = ''0.00 GB'')
         \<and> (disk_Total d = 1073741824 \<longrightarrow> valueStr (metrics info ! 5) = ''1.00 GB'')
         \<and> (disk_Total d = 0 \<longrightarrow> valueStr (metrics info ! 5) = ''0.00 GB'')
         \<and> (host_Uptime h = 3600 \<longrightarrow> valueStr (metrics info ! 6) = ''1.00 hours'')
         \<and> (host_Uptime h = 5400 \<longrightarrow> valueStr (metrics info ! 6) = ''1.50 hours'')"
proof -
  note c = collect_success [OF assms]
  have e1: "uint (mem_Total m) < 2 ^ 53 \<longrightarrow> Memory info = of_int (uint (mem_Total m)) / 2 ^ 30"
    unfolding c(1) by (rule impI, erule bytes_to_GB_exact)
  have e2: "uint (disk_Total d) < 2 ^ 53 \<longrightarrow> Disk info = of_int (uint (disk_Total d)) / 2 ^ 30"
    unfolding c(2) by (rule impI, erule bytes_to_GB_exact)
  have e3: "uint (host_Uptime h) < 2 ^ 53 \<longrightarrow>
              Uptime info = roundFloat64 (of_int (uint (host_Uptime h)) / 3600)"
  proof
    assume a: "uint (host_Uptime h) < 2 ^ 53"
    show "Uptime info = roundFloat64 (of_int (uint (host_Uptime h)) / 3600)"
      unfolding c(3) float64_div_def float64_of_uint64_exact [OF a] by (rule refl)
  qed
  have m1: "mem_Total m = 1073741824 \<longrightarrow> valueStr (metrics info ! 4) = ''1.00 GB''"
  proof
    assume a: "mem_Total m = 1073741824"
    show "valueStr (metrics info ! 4) = ''1.00 GB''"
      unfolding valueStr_Memory c(1) a GB_1 formatFloat2_1 by simp
  qed
  have m0: "mem_Total m = 0 \<longrightarrow> valueStr (metrics info ! 4) = ''0.00 GB''"
  proof
    assume a: "mem_Total m = 0"
    show "valueStr (metrics info ! 4) = ''0.00 GB''"
      unfolding valueStr_Memory c(1) a GB_0 formatFloat2_0 by simp
  qed
  have d1: "disk_Total d = 1073741824 \<longrightarrow> valueStr (metrics info ! 5) = ''1.00 GB''"
  proof
    assume a: "disk_Total d = 1073741824"
    show "valueStr (metrics info ! 5) = ''1.00 GB''"
      unfolding valueStr_Disk c(2) a GB_1 formatFloat2_1 by simp
  qed
  have d0: "disk_Total d = 0 \<longrightarrow> valueStr (metrics info ! 5) = ''0.00 GB''"
  proof
    assume a: "disk_Total d = 0"
    show "valueStr (metrics info ! 5) = ''0.00 GB''"
      unfolding valueStr_Disk c(2) a GB_0 formatFloat2_0 by simp
  qed
  have u1: "host_Uptime h = 3600 \<longrightarrow> valueStr (metrics info ! 6) = ''1.00 hours''"
  proof
    assume a: "host_Uptime h = 3600"
    show "valueStr (metrics info ! 6) = ''1.00 hours''"
      unfolding valueStr_Uptime c(3) a seconds_3600 formatFloat2_1 by simp
  qed
  have u2: "host_Uptime h = 5400 \<longrightarrow> valueStr (metrics info ! 6) = ''1.50 hours''"
  proof
    assume a: "host_Uptime h = 5400"
    show "valueStr (metrics info ! 6) = ''1.50 hours''"
      unfolding valueStr_Uptime c(3) a seconds_5400 formatFloat2_3_2 by simp
  qed
  show ?thesis
    by (intro conjI c e1 e2 e3 m1 m0 d1 d0 u1 u2)
qed

lemma GB_1_numeral: "float64_div (float64_of_uint64 1073741824) 1073741824 = 1"
  using GB_1 by simp

lemma GB_0_numeral: "float64_div (float64_of_uint64 0) 1073741824 = 0"
  using GB_0 by simp

lemma MB_0_numeral: "float64_div (float64_of_uint64 0) 1048576 = 0"
  using roundFloat64_dyadic [of 0 0] float64_of_uint64_exact [of 0]
  by (simp add: float64_div_def)

lemma formatInt_4: "formatInt 4 = ''4''"
  by (simp add: formatInt_def formatNat.simps digit_def)

lemma collect_oneProcessorHost:
  "collectSystemInfo oneProcessorHost
     = Inr (Inr \<lparr>Platform = ''debian 12'', Kernel = ''6.1.0'', Hostname = ''box'',
                  CPU = ''Model (4 cores)'', Memory = 1, Disk = 0, Uptime = 1,
                  NetworkSent = 0, NetworkRecv = 0\<rparr>)"
proof -
  have s: "float64_div (float64_of_uint64 3600) 3600 = 1"
    by (rule seconds_3600)
  show ?thesis
    by (simp add: collectSystemInfo_def oneProcessorHost_def noProcessorHost_def
        GB_1_numeral GB_0_numeral MB_0_numeral s formatInt_4)
qed

text \<open>
  Two machines: \<^const>\<open>oneProcessorHost\<close> (1073741824 bytes of memory, a disk of 0
  bytes, up for 3600 seconds), and the same with no memory, a disk of 1073741824 bytes,
  up for 5400 seconds.
\<close>

theorem collected_conversions_witness:
  "collectSystemInfo oneProcessorHost
     = Inr (Inr \<lparr>Platform = ''debian 12'', Kernel = ''6.1.0'', Hostname = ''box'',
                  CPU = ''Model (4 cores)'', Memory = 1, Disk = 0, Uptime = 1,
                  NetworkSent = 0, NetworkRecv = 0\<rparr>)
   \<and> map valueStr (metrics \<lparr>Platform = ''debian 12'', Kernel = ''6.1.0'', Hostname = ''box'',
                  CPU = ''Model (4 cores)'', Memory = 1, Disk = 0, Uptime = 1,
                  NetworkSent = 0, NetworkRecv = 0\<rparr>)
       = [''debian 12'', ''6.1.0'', ''box'', ''Model (4 cores)'', ''1.00 GB'', ''0.00 GB'',
          ''1.00 hours'',
          [CHR 0xE2, CHR 0x86, CHR 0x91] @ ''0.00 MB | '' @ [CHR 0xE2, CHR 0x86, CHR 0x93]
            @ ''0.00 MB'']
   \<and> collectSystemInfo
         (oneProcessorHost
            \<lparr>host_Info := Inr \<lparr>host_Hostname = ''box'', host_Uptime = 5400,
                                host_Platform = ''debian'', host_PlatformVersion = ''12'',
                                host_KernelVersion = ''6.1.0''\<rparr>,
             mem_VirtualMemory := Inr \<lparr>mem_Total = 0\<rparr>,
             disk_Usage := \<lambda>path. Inr \<lparr>disk_Total = 1073741824\<rparr>\<rparr>)
     = Inr (Inr \<lparr>Platform = ''debian 12'', Kernel = ''6.1.0'', Hostname = ''box'',
                  CPU = ''Model (4 cores)'', Memory = 0, Disk = 1, Uptime = 3 / 2,
                  NetworkSent = 0, NetworkRecv = 0\<rparr>)
   \<and> map valueStr (metrics \<lparr>Platform = ''debian 12'', Kernel = ''6.1.0'', Hostname = ''box'',
                  CPU = ''Model (4 cores)'', Memory = 0, Disk = 1, Uptime = 3 / 2,
                  NetworkSent = 0, NetworkRecv = 0\<rparr>)
       = [''debian 12'', ''6.1.0'', ''box'', ''Model (4 cores)'', ''0.00 GB'', ''1.00 GB'',
          ''1.50 hours'',
          [CHR 0xE2, CHR 0x86, CHR 0x91] @ ''0.00 MB | '' @ [CHR 0xE2, CHR 0x86, CHR 0x93]
            @ ''0.00 MB'']"
proof -
  let ?h1 = "\<lparr>host_Hostname = ''box'', host_Uptime = 3600, host_Platform = ''debian'',
              host_PlatformVersion = ''12'', host_KernelVersion = ''6.1.0''\<rparr>"
  let ?h2 = "\<lparr>host_Hostname = ''box'', host_Uptime = 5400, host_Platform = ''debian'',
              host_PlatformVersion = ''12'', host_KernelVersion = ''6.1.0''\<rparr>"
  let ?env2 = "oneProcessorHost
            \<lparr>host_Info := Inr ?h2, mem_VirtualMemory := Inr \<lparr>mem_Total = 0\<rparr>,
             disk_Usage := \<lambda>path. Inr \<lparr>disk_Total = 1073741824\<rparr>\<rparr>"
  let ?i1 = "\<lparr>Platform = ''debian 12'', Kernel = ''6.1.0'', Hostname = ''box'',
              CPU = ''Model (4 cores)'', Memory = 1, Disk = 0, Uptime = 1,
              NetworkSent = 0, NetworkRecv = 0\<rparr>"
  let ?i2 = "\<lparr>Platform = ''debian 12'', Kernel = ''6.1.0'', Hostname = ''box'',
              CPU = ''Model (4 cores)'', Memory = 0, Disk = 1, Uptime = 3 / 2,
              NetworkSent = 0, NetworkRecv = 0\<rparr>"
  have seconds_5400': "float64_div (float64_of_uint64 5400) 3600 = 3 / 2"
    by (rule seconds_5400)
  have c1: "collectSystemInfo oneProcessorHost = Inr (Inr ?i1)"
    by (rule collect_oneProcessorHost)
  have c2: "collectSystemInfo ?env2 = Inr (Inr ?i2)"
    by (simp add: collectSystemInfo_def oneProcessorHost_def noProcessorHost_def
        GB_1_numeral GB_0_numeral MB_0_numeral seconds_5400' formatInt_4)
  have q1: "host_Info oneProcessorHost = Inr ?h1"
    "mem_VirtualMemory oneProcessorHost = Inr \<lparr>mem_Total = 1073741824\<rparr>"
    "disk_Usage oneProcessorHost ''/'' = Inr \<lparr>disk_Total = 0\<rparr>"
    by (simp_all add: oneProcessorHost_def noProcessorHost_def)
  have q2: "host_Info ?env2 = Inr ?h2"
    "mem_VirtualMemory ?env2 = Inr \<lparr>mem_Total = 0\<rparr>"
    "disk_Usage ?env2 ''/'' = Inr \<lparr>disk_Total = 1073741824\<rparr>"
    by simp_all
  note t1 = collected_conversions [OF c1 q1]
  note t2 = collected_conversions [OF c2 q2]
  have v1: "valueStr (metrics ?i1 ! 4) = ''1.00 GB''" "valueStr (metrics ?i1 ! 5) = ''0.00 GB''"
    "valueStr (metrics ?i1 ! 6) = ''1.00 hours''"
    using t1 by simp_all
  have v2: "valueStr (metrics ?i2 ! 4) = ''0.00 GB''" "valueStr (metrics ?i2 ! 5) = ''1.00 GB''"
    "valueStr (metrics ?i2 ! 6) = ''1.50 hours''"
    using t2 by simp_all
  have n: "formatFloat2 0 = ''0.00''"
    by (rule formatFloat2_0)
  have s1: "map valueStr (metrics ?i1)
       = [''debian 12'', ''6.1.0'', ''box'', ''Model (4 cores)'', ''1.00 GB'', ''0.00 GB'',
          ''1.00 hours'',
          [CHR 0xE2, CHR 0x86, CHR 0x91] @ ''0.00 MB | '' @ [CHR 0xE2, CHR 0x86, CHR 0x93]
            @ ''0.00 MB'']"
    using v1 by (simp add: metrics_def valueStr_def n)
  have s2: "map valueStr (metrics ?i2)
       = [''debian 12'', ''6.1.0'', ''box'', ''Model (4 cores)'', ''0.00 GB'', ''1.00 GB'',
          ''1.50 hours'',
          [CHR 0xE2, CHR 0x86, CHR 0x91] @ ''0.00 MB | '' @ [CHR 0xE2, CHR 0x86, CHR 0x93]
            @ ''0.00 MB'']"
    using v2 by (simp add: metrics_def valueStr_def n)
  show ?thesis
    by (intro conjI c1 s1 c2 s2)
qed

section \<open>Properties of the rendering\<close>

lemma getPadding_total:
  "getPadding s w = Inr (replicate (nat (int64 (w - getDisplayWidth s))) (CHR '' ''))"
proof -
  have "concat (replicate n '' '') = replicate n (CHR '' '')" for n
    by (induction n) auto
  then show ?thesis
    by (simp add: getPadding_def Let_def Repeat_def)
qed

lemma printMetrics_lines:
  "printMetrics schemes ms w =
     (w\<lparr>stdout := stdout w @
          map (\<lambda>m. '' '' @ metricLine (NoColor w) schemes m
                      @ replicate (nat (int64 (58 - getDisplayWidth (metricLine (NoColor w) schemes m))))
                          (CHR '' '')
                      @ '' '' @ [CHR 0x0A]) ms\<rparr>,
      Inr ())"
  by (induction ms arbitrary: w) (simp_all add: getPadding_total)

lemma digit_in: "d < 10 \<Longrightarrow> digit d \<in> set ''0123456789''"
  unfolding digit_def by (rule nth_mem) simp

lemma set_formatNat: "set (formatNat n) \<subseteq> set ''0123456789''"
proof (induction n rule: formatNat.induct)
  case (1 n)
  show ?case
  proof (cases "n < 10")
    case True
    then show ?thesis
      using digit_in [of n] by (subst formatNat.simps) simp
  next
    case False
    have "digit (n mod 10) \<in> set ''0123456789''"
      by (rule digit_in) simp
    with False 1 show ?thesis
      by (subst formatNat.simps) simp
  qed
qed

lemma ESC_formatNat: "ESC \<notin> set (formatNat n)"
  using set_formatNat [of n] by (auto simp: ESC_def)

lemma ESC_formatFloat2: "ESC \<notin> set (formatFloat2 x)"
proof -
  have "ESC \<notin> set ''0123456789''"
    by (simp add: ESC_def)
  then have "ESC \<noteq> digit d" if "d < 10" for d
    using digit_in [OF that] by metis
  then show ?thesis
    by (simp add: formatFloat2_def Let_def ESC_formatNat) (simp add: ESC_def)
qed

lemma metrics_ESC_free:
  assumes "ESC \<notin> set (Platform info)" "ESC \<notin> set (Kernel info)"
    "ESC \<notin> set (Hostname info)" "ESC \<notin> set (CPU info)"
  shows "\<forall>m \<in> set (metrics info).
           ESC \<notin> set (icon m) \<and> ESC \<notin> set (name m) \<and> ESC \<notin> set (valueStr m)"
  using assms ESC_formatFloat2 [of "Memory info"] ESC_formatFloat2 [of "Disk info"]
    ESC_formatFloat2 [of "Uptime info"] ESC_formatFloat2 [of "NetworkSent info"]
    ESC_formatFloat2 [of "NetworkRecv info"]
  by (simp add: metrics_def valueStr_def ESC_def)

lemma strip_text: "ESC \<notin> set s \<Longrightarrow> stripFrom Text (s @ t) = s @ stripFrom Text t"
  by (induction s) auto

lemma strip_header_on:
  "stripFrom Text (format (header createColorSchemes) @ t) = stripFrom Text t"
  by (simp add: format_def createColorSchemes_def FgHiGreen_def Bold_def formatNat.simps
      digit_def byte_def)

lemma strip_value_on:
  "stripFrom Text (format (value_color createColorSchemes) @ t) = stripFrom Text t"
  by (simp add: format_def createColorSchemes_def FgWhite_def formatNat.simps
      digit_def byte_def)

lemma strip_off: "stripFrom Text (unformat c @ t) = stripFrom Text t"
  by (simp add: unformat_def byte_def)

lemma strip_styled_line:
  assumes "ESC \<notin> set (icon m)" "ESC \<notin> set (name m)" "ESC \<notin> set (valueStr m)"
  shows "stripFrom Text (metricLine False createColorSchemes m @ t)
           = metricLine True createColorSchemes m @ stripFrom Text t"
proof -
  have sp: "ESC \<notin> set '' ''" and col: "ESC \<notin> set '': ''"
    by (simp_all add: ESC_def)
  have "stripFrom Text (metricLine False createColorSchemes m @ t)
          = stripFrom Text (icon m @ '' '' @ format (header createColorSchemes) @ name m
              @ unformat (header createColorSchemes) @ '': ''
              @ format (value_color createColorSchemes) @ valueStr m
              @ unformat (value_color createColorSchemes) @ t)"
    by (simp add: metricLine_def Sprint_def)
  also have "\<dots> = icon m @ '' '' @ name m @ '': '' @ valueStr m @ stripFrom Text t"
    by (simp only: strip_text [OF assms(1)] strip_text [OF sp] strip_header_on
        strip_text [OF assms(2)] strip_off strip_text [OF col] strip_value_on
        strip_text [OF assms(3)])
  also have "\<dots> = metricLine True createColorSchemes m @ stripFrom Text t"
    by (simp add: metricLine_def Sprint_def)
  finally show ?thesis .
qed

lemma trimRight_padding:
  "trimRight (s @ replicate n (CHR '' '') @ '' '' @ [CHR 0x0A]) = trimRight s"
proof -
  let ?P = "\<lambda>c. c = CHR '' '' \<or> c = CHR 0x0A"
  have "dropWhile ?P (replicate n (CHR '' '') @ rev s) = dropWhile ?P (rev s)"
    by (rule dropWhile_append2) simp
  then show ?thesis
    by (simp add: trimRight_def)
qed

lemma strip_padding:
  "stripFrom Text (replicate n (CHR '' '') @ '' '' @ [CHR 0x0A])
     = replicate n (CHR '' '') @ '' '' @ [CHR 0x0A]"
proof -
  have "ESC \<notin> set (replicate n (CHR '' '') @ '' '' @ [CHR 0x0A])"
    by (auto simp: ESC_def)
  from strip_text [OF this, of "[]"] show ?thesis
    by simp
qed

lemma printed_line_same_text:
  assumes "ESC \<notin> set (icon m)" "ESC \<notin> set (name m)" "ESC \<notin> set (valueStr m)"
  shows "trimRight (stripANSI ('' '' @ metricLine False createColorSchemes m
                       @ replicate k (CHR '' '') @ '' '' @ [CHR 0x0A]))
         = trimRight ('' '' @ metricLine True createColorSchemes m
                       @ replicate n (CHR '' '') @ '' '' @ [CHR 0x0A])"
proof -
  have sp: "ESC \<notin> set '' ''"
    by (simp add: ESC_def)
  have "stripANSI ('' '' @ metricLine False createColorSchemes m
                       @ replicate k (CHR '' '') @ '' '' @ [CHR 0x0A])
          = '' '' @ metricLine True createColorSchemes m
                       @ replicate k (CHR '' '') @ '' '' @ [CHR 0x0A]"
    unfolding stripANSI_def
    by (simp only: strip_text [OF sp] strip_styled_line [OF assms] strip_padding)
  then show ?thesis
    using trimRight_padding [of "'' '' @ metricLine True createColorSchemes m" k]
      trimRight_padding [of "'' '' @ metricLine True createColorSchemes m" n]
    by simp
qed

lemma plain_line_ESC_free:
  assumes "ESC \<notin> set (icon m)" "ESC \<notin> set (name m)" "ESC \<notin> set (valueStr m)"
  shows "ESC \<notin> set ('' '' @ metricLine True createColorSchemes m
                       @ replicate n (CHR '' '') @ '' '' @ [CHR 0x0A])"
  using assms by (auto simp: metricLine_def Sprint_def ESC_def)

lemma PrintSystemInfo_ok:
  assumes "collectSystemInfo env = Inr (Inr info)"
  shows "PrintSystemInfo env noColor w =
     (w\<lparr>NoColor := noColor,
        stdout := stdout w @
          map (\<lambda>m. '' '' @ metricLine noColor createColorSchemes m
                      @ replicate
                          (nat (int64 (58 - getDisplayWidth (metricLine noColor createColorSchemes m))))
                          (CHR '' '')
                      @ '' '' @ [CHR 0x0A]) (metrics info)\<rparr>,
      Inr None)"
  by (simp add: PrintSystemInfo_def Let_def assms printSystemDetails_def printMetrics_lines)

lemma collect_escapeHost:
  "collectSystemInfo escapeHost
     = Inr (Inr \<lparr>Platform = ''debian 12'', Kernel = ''6.1.0'', Hostname = ESC # ''[31mbox'',
                  CPU = ''Model (4 cores)'', Memory = 1, Disk = 0, Uptime = 1,
                  NetworkSent = 0, NetworkRecv = 0\<rparr>)"
proof -
  have s: "float64_div (float64_of_uint64 3600) 3600 = 1"
    by (rule seconds_3600)
  show ?thesis
    by (simp add: collectSystemInfo_def escapeHost_def oneProcessorHost_def noProcessorHost_def
        GB_1_numeral GB_0_numeral MB_0_numeral s formatInt_4)
qed

text \<open>
  C7 as it is worded fails for a text that carries a control sequence itself: on
  \<^const>\<open>escapeHost\<close> the third line of the report without style contains \<^const>\<open>ESC\<close>,
  since the texts are written as they are.
\<close>

theorem escape_in_hostname_counterexample:
  "collectSystemInfo escapeHost
     = Inr (Inr \<lparr>Platform = ''debian 12'', Kernel = ''6.1.0'', Hostname = ESC # ''[31mbox'',
                  CPU = ''Model (4 cores)'', Memory = 1, Disk = 0, Uptime = 1,
                  NetworkSent = 0, NetworkRecv = 0\<rparr>)
   \<and> snd (PrintSystemInfo escapeHost True \<lparr>NoColor = False, stdout = []\<rparr>) = Inr None
   \<and> ESC \<in> set (stdout (fst (PrintSystemInfo escapeHost True \<lparr>NoColor = False, stdout = []\<rparr>))
                  ! 2)"
proof -
  let ?i = "\<lparr>Platform = ''debian 12'', Kernel = ''6.1.0'', Hostname = ESC # ''[31mbox'',
              CPU = ''Model (4 cores)'', Memory = 1, Disk = 0, Uptime = 1,
              NetworkSent = 0, NetworkRecv = 0\<rparr>"
  let ?w = "\<lparr>NoColor = False, stdout = []\<rparr>"
  have c: "collectSystemInfo escapeHost = Inr (Inr ?i)"
    by (rule collect_escapeHost)
  have r: "snd (PrintSystemInfo escapeHost True ?w) = Inr None"
    by (simp add: PrintSystemInfo_ok [OF c])
  have l: "ESC \<in> set (metricLine True createColorSchemes (metrics ?i ! 2))"
    by (simp add: metrics_def metricLine_def Sprint_def valueStr_def)
  have n: "2 < length (metrics ?i)"
    by (simp add: metrics_def)
  have "stdout (fst (PrintSystemInfo escapeHost True ?w)) ! 2
          = '' '' @ metricLine True createColorSchemes (metrics ?i ! 2)
              @ replicate
                  (nat (int64 (58 - getDisplayWidth (metricLine True createColorSchemes (metrics ?i ! 2)))))
                  (CHR '' '')
              @ '' '' @ [CHR 0x0A]"
    unfolding PrintSystemInfo_ok [OF c] using n by simp
  with l have e: "ESC \<in> set (stdout (fst (PrintSystemInfo escapeHost True ?w)) ! 2)"
    by simp
  show ?thesis
    by (intro conjI c r e)
qed

text \<open>
  C7, amended.  Let \<open>info\<close> be collected, with no byte \<^const>\<open>ESC\<close> in its four texts.
  Rendered with \<open>noColor\<close> set, the report is eight lines that contain no byte
  \<^const>\<open>ESC\<close>.  Rendered with \<open>noColor\<close> unset, it is eight lines that, once their
  control sequences are removed, differ from those only in the padding that ends each
  line: the icons, labels and values are the same.  Neither rendering fails.  The list
  of toolchains is no part of what \<^const>\<open>PrintSystemInfo\<close> writes.
\<close>

theorem rendering_without_style:
  assumes collected: "collectSystemInfo env = Inr (Inr info)"
    and fields: "ESC \<notin> set (Platform info)" "ESC \<notin> set (Kernel info)"
      "ESC \<notin> set (Hostname info)" "ESC \<notin> set (CPU info)"
  shows "snd (PrintSystemInfo env True \<lparr>NoColor = c, stdout = []\<rparr>) = Inr None
         \<and> snd (PrintSystemInfo env False \<lparr>NoColor = c, stdout = []\<rparr>) = Inr None
         \<and> length (stdout (fst (PrintSystemInfo env True \<lparr>NoColor = c, stdout = []\<rparr>))) = 8
         \<and> (\<forall>l \<in> set (stdout (fst (PrintSystemInfo env True \<lparr>NoColor = c, stdout = []\<rparr>))).
               ESC \<notin> set l)
         \<and> map (\<lambda>l. trimRight (stripANSI l))
               (stdout (fst (PrintSystemInfo env False \<lparr>NoColor = c, stdout = []\<rparr>)))
             = map trimRight
                 (stdout (fst (PrintSystemInfo env True \<lparr>NoColor = c, stdout = []\<rparr>)))"
proof -
  let ?w = "\<lparr>NoColor = c, stdout = []\<rparr>"
  let ?printed = "\<lambda>noColor m. '' '' @ metricLine noColor createColorSchemes m
                      @ replicate
                          (nat (int64 (58 - getDisplayWidth (metricLine noColor createColorSchemes m))))
                          (CHR '' '')
                      @ '' '' @ [CHR 0x0A]"
  have out: "stdout (fst (PrintSystemInfo env noColor ?w)) = map (?printed noColor) (metrics info)"
    and res: "snd (PrintSystemInfo env noColor ?w) = Inr None" for noColor
    by (simp_all add: PrintSystemInfo_ok [OF collected])
  note free = metrics_ESC_free [OF fields]
  have n: "length (map (?printed True) (metrics info)) = 8"
    by (simp add: metrics_def)
  have p: "\<forall>l \<in> set (map (?printed True) (metrics info)). ESC \<notin> set l"
  proof
    fix l
    assume "l \<in> set (map (?printed True) (metrics info))"
    then obtain m where m: "m \<in> set (metrics info)" and l: "l = ?printed True m"
      by auto
    from bspec [OF free m]
    have f: "ESC \<notin> set (icon m)" "ESC \<notin> set (name m)" "ESC \<notin> set (valueStr m)"
      by simp_all
    show "ESC \<notin> set l"
      unfolding l by (rule plain_line_ESC_free [OF f])
  qed
  have same: "trimRight (stripANSI (?printed False m)) = trimRight (?printed True m)"
    if m: "m \<in> set (metrics info)" for m
  proof -
    from bspec [OF free m]
    have f: "ESC \<notin> set (icon m)" "ESC \<notin> set (name m)" "ESC \<notin> set (valueStr m)"
      by simp_all
    show ?thesis
      by (rule printed_line_same_text [OF f])
  qed
  have s: "map (\<lambda>l. trimRight (stripANSI l)) (map (?printed False) (metrics info))
             = map trimRight (map (?printed True) (metrics info))"
    unfolding map_map comp_def by (intro map_cong refl) (rule same)
  show ?thesis
    unfolding out res using n p s by (intro conjI) simp_all
qed

lemma width_plain:
  "getDisplayWidth ([CHR 0xEF, CHR 0x85, CHR 0xBC] @ '' Platform: debian 12'') = 21"
  by (simp add: getDisplayWidth_def RuneCountInString_def decodeRunes.simps
      DecodeRuneInString_def byte_def)

lemma width_styled:
  "getDisplayWidth ([CHR 0xEF, CHR 0x85, CHR 0xBC] @ '' '' @ ESC # ''[92;1mPlatform''
      @ ESC # ''[0m: '' @ ESC # ''[37mdebian 12'' @ ESC # ''[0m'') = 41"
  by (simp add: getDisplayWidth_def RuneCountInString_def decodeRunes.simps
      DecodeRuneInString_def byte_def ESC_def)

text \<open>
  On \<^const>\<open>oneProcessorHost\<close>, with the first line of each rendering: 37 spaces of
  padding without style, 17 with it.
\<close>

theorem rendering_without_style_witness:
  "collectSystemInfo oneProcessorHost
     = Inr (Inr \<lparr>Platform = ''debian 12'', Kernel = ''6.1.0'', Hostname = ''box'',
                  CPU = ''Model (4 cores)'', Memory = 1, Disk = 0, Uptime = 1,
                  NetworkSent = 0, NetworkRecv = 0\<rparr>)
   \<and> ESC \<notin> set ''debian 12'' \<and> ESC \<notin> set ''6.1.0'' \<and> ESC \<notin> set ''box''
   \<and> ESC \<notin> set ''Model (4 cores)''
   \<and> snd (PrintSystemInfo oneProcessorHost True \<lparr>NoColor = False, stdout = []\<rparr>) = Inr None
   \<and> list_all (\<lambda>l. ESC \<notin> set l)
         (stdout (fst (PrintSystemInfo oneProcessorHost True \<lparr>NoColor = False, stdout = []\<rparr>)))
   \<and> map (\<lambda>l. trimRight (stripANSI l))
         (stdout (fst (PrintSystemInfo oneProcessorHost False \<lparr>NoColor = False, stdout = []\<rparr>)))
       = map trimRight
           (stdout (fst (PrintSystemInfo oneProcessorHost True \<lparr>NoColor = False, stdout = []\<rparr>)))
   \<and> hd (stdout (fst (PrintSystemInfo oneProcessorHost True \<lparr>NoColor = False, stdout = []\<rparr>)))
       = '' '' @ [CHR 0xEF, CHR 0x85, CHR 0xBC] @ '' Platform: debian 12''
           @ replicate 37 (CHR '' '') @ '' '' @ [CHR 0x0A]
   \<and> hd (stdout (fst (PrintSystemInfo oneProcessorHost False \<lparr>NoColor = False, stdout = []\<rparr>)))
       = '' '' @ [CHR 0xEF, CHR 0x85, CHR 0xBC] @ '' '' @ ESC # ''[92;1mPlatform''
           @ ESC # ''[0m: '' @ ESC # ''[37mdebian 12'' @ ESC # ''[0m''
           @ replicate 17 (CHR '' '') @ '' '' @ [CHR 0x0A]"
proof -
  let ?i = "\<lparr>Platform = ''debian 12'', Kernel = ''6.1.0'', Hostname = ''box'',
              CPU = ''Model (4 cores)'', Memory = 1, Disk = 0, Uptime = 1,
              NetworkSent = 0, NetworkRecv = 0\<rparr>"
  let ?w = "\<lparr>NoColor = False, stdout = []\<rparr>"
  have c: "collectSystemInfo oneProcessorHost = Inr (Inr ?i)"
    by (rule collect_oneProcessorHost)
  have e: "ESC \<notin> set ''debian 12''" "ESC \<notin> set ''6.1.0''" "ESC \<notin> set ''box''"
    "ESC \<notin> set ''Model (4 cores)''"
    by (simp_all add: ESC_def)
  have f: "ESC \<notin> set (Platform ?i)" "ESC \<notin> set (Kernel ?i)" "ESC \<notin> set (Hostname ?i)"
    "ESC \<notin> set (CPU ?i)"
    using e by simp_all
  note r = rendering_without_style [OF c f, of False]
  have r1: "snd (PrintSystemInfo oneProcessorHost True ?w) = Inr None"
    using r by (rule conjunct1)
  have "\<forall>l \<in> set (stdout (fst (PrintSystemInfo oneProcessorHost True ?w))). ESC \<notin> set l"
    using r by (elim conjE)
  then have r4: "list_all (\<lambda>l. ESC \<notin> set l)
                   (stdout (fst (PrintSystemInfo oneProcessorHost True ?w)))"
    by (simp only: list_all_iff)
  have r5: "map (\<lambda>l. trimRight (stripANSI l))
         (stdout (fst (PrintSystemInfo oneProcessorHost False ?w)))
       = map trimRight (stdout (fst (PrintSystemInfo oneProcessorHost True ?w)))"
    using r by (elim conjE)
  have l1: "metricLine True createColorSchemes (hd (metrics ?i))
              = [CHR 0xEF, CHR 0x85, CHR 0xBC] @ '' Platform: debian 12''"
    by (simp add: metrics_def metricLine_def Sprint_def valueStr_def)
  have l2: "metricLine False createColorSchemes (hd (metrics ?i))
              = [CHR 0xEF, CHR 0x85, CHR 0xBC] @ '' '' @ ESC # ''[92;1mPlatform''
                  @ ESC # ''[0m: '' @ ESC # ''[37mdebian 12'' @ ESC # ''[0m''"
    by (simp add: metrics_def metricLine_def Sprint_def valueStr_def format_def unformat_def
        createColorSchemes_def FgHiGreen_def Bold_def FgWhite_def formatNat.simps digit_def)
  have m: "metrics ?i \<noteq> []"
    by (simp add: metrics_def)
  have o: "stdout (fst (PrintSystemInfo oneProcessorHost noColor ?w))
             = map (\<lambda>m. '' '' @ metricLine noColor createColorSchemes m
                      @ replicate
                          (nat (int64 (58 - getDisplayWidth (metricLine noColor createColorSchemes m))))
                          (CHR '' '')
                      @ '' '' @ [CHR 0x0A]) (metrics ?i)" for noColor
    by (simp add: PrintSystemInfo_ok [OF c])
  have p37: "nat (int64 (58 - 21)) = 37" and p17: "nat (int64 (58 - 41)) = 17"
    by (simp_all add: int64_def)
  have h1: "hd (stdout (fst (PrintSystemInfo oneProcessorHost True ?w)))
       = '' '' @ [CHR 0xEF, CHR 0x85, CHR 0xBC] @ '' Platform: debian 12''
           @ replicate 37 (CHR '' '') @ '' '' @ [CHR 0x0A]"
    unfolding o hd_map [OF m] l1 width_plain p37 by (simp only: append_assoc)
  have h2: "hd (stdout (fst (PrintSystemInfo oneProcessorHost False ?w)))
       = '' '' @ [CHR 0xEF, CHR 0x85, CHR 0xBC] @ '' '' @ ESC # ''[92;1mPlatform''
           @ ESC # ''[0m: '' @ ESC # ''[37mdebian 12'' @ ESC # ''[0m''
           @ replicate 17 (CHR '' '') @ '' '' @ [CHR 0x0A]"
    unfolding o hd_map [OF m] l2 width_styled p17 by (simp only: append_assoc append_Cons)
  show ?thesis
    by (intro conjI c e r1 r4 r5 h1 h2)
qed

end
